theory Spec2Isabelle
  imports Main
begin

section \<open>Data model of reaction_handler.go\<close>

text \<open>
  Go's \<open>int64\<close> and (on a 64-bit platform) \<open>int\<close>. The handlers never compute with
  these numbers: they are parsed (with a range check, see \<open>Atoi\<close>), copied, compared and
  printed, so no wrap-around can occur and they are modelled as mathematical integers.
\<close>

type_synonym int64 = int

text \<open>A Go \<open>error\<close> value, carrying the text of \<open>err.Error()\<close>.\<close>

datatype error = Error string

fun errorMsg :: "error \<Rightarrow> string" where
  "errorMsg (Error s) = s"

record ReactionModel =
  ID :: int64
  EmojiName :: string
  UserID :: int64
  LivestreamID :: int64
  CreatedAt :: int64

text \<open>
  The response type \<open>Reaction\<close>. The types \<open>User\<close> and \<open>Livestream\<close> are declared
  outside reaction_handler.go; they are the type parameters \<open>'u\<close> and \<open>'l\<close>.
\<close>

record ('u, 'l) Reaction =
  ID :: int64
  EmojiName :: string
  User :: 'u
  Livestream :: 'l
  CreatedAt :: int64

record PostReactionRequest =
  EmojiName :: string

section \<open>Library functions used by the handlers\<close>

subsection \<open>strconv.Atoi and the verb \<open>%d\<close>\<close>

text \<open>
  \<open>strconv.Atoi\<close>: an optional sign \<open>+\<close> or \<open>-\<close>, then at least one decimal digit and
  nothing else; a value outside the range of \<open>int\<close> is an error. \<open>None\<close> stands for
  \<open>err != nil\<close> (the handlers only test the error against \<open>nil\<close>).
\<close>

definition digitVal :: "char \<Rightarrow> int option" where
  "digitVal ch =
     (let n = (of_char ch :: nat)
      in if 48 \<le> n \<and> n \<le> 57 then Some (int (n - 48)) else None)"

fun parseDigits :: "int \<Rightarrow> string \<Rightarrow> int option" where
  "parseDigits n [] = Some n"
| "parseDigits n (ch # s) =
     (case digitVal ch of
        None \<Rightarrow> None
      | Some d \<Rightarrow> parseDigits (n * 10 + d) s)"

definition Atoi :: "string \<Rightarrow> int option" where
  "Atoi s0 =
     (if s0 = [] then None
      else
        let s = (if hd s0 = CHR ''-'' \<or> hd s0 = CHR ''+'' then tl s0 else s0)
        in if s = [] then None
           else
             (case parseDigits 0 s of
                None \<Rightarrow> None
              | Some n \<Rightarrow>
                  let v = (if hd s0 = CHR ''-'' then - n else n)
                  in if - (2 ^ 63) \<le> v \<and> v < 2 ^ 63 then Some v else None))"

definition digitChar :: "nat \<Rightarrow> char" where
  "digitChar d = char_of (48 + d)"

fun showNat :: "nat \<Rightarrow> string" where
  "showNat n = (if n < 10 then [digitChar n] else showNat (n div 10) @ [digitChar (n mod 10)])"

text \<open>\<open>fmt.Sprintf("%d", i)\<close>.\<close>

definition showInt :: "int \<Rightarrow> string" where
  "showInt i = (if i < 0 then CHR ''-'' # showNat (nat (- i)) else showNat (nat i))"

subsection \<open>sqlx.In\<close>

text \<open>
  \<open>sqlx.In(query, ids)\<close> with one bind variable and one slice argument: the \<open>?\<close> is
  replaced by one \<open>?\<close> per element, separated by \<open>", "\<close>, and the elements become the
  arguments, one each, in the slice's order. An empty slice is an error, returned with
  an empty query and no arguments (the handlers drop that error).
\<close>

fun bindVars :: "nat \<Rightarrow> string" where
  "bindVars 0 = []"
| "bindVars (Suc 0) = ''?''"
| "bindVars (Suc n) = ''?, '' @ bindVars n"

fun expandIn :: "string \<Rightarrow> nat \<Rightarrow> string" where
  "expandIn [] n = []"
| "expandIn (c # cs) n = (if c = CHR ''?'' then bindVars n @ cs else c # expandIn cs n)"

definition sqlxIn :: "string \<Rightarrow> int64 list \<Rightarrow> string \<times> int64 list" where
  "sqlxIn query ids = (if ids = [] then ([], []) else (expandIn query (length ids), ids))"

section \<open>The transactional store\<close>

text \<open>
  A transaction \<open>*sqlx.Tx\<close> on the \<open>reactions\<close> table: the committed rows, the rows
  this transaction has written and not committed, its status, and the statements it has
  sent to the store, in order. \<open>EvCommit\<close> and \<open>EvRollback\<close> are the two statements that
  close a transaction.
\<close>

datatype txStatus = Active | Committed | RolledBack | CommitFailed

datatype event =
    EvQuery string "int64 list"
  | EvExec string ReactionModel
  | EvCommit
  | EvRollback

text \<open>The statements that close a transaction.\<close>

fun closing :: "event \<Rightarrow> bool" where
  "closing EvCommit = True"
| "closing EvRollback = True"
| "closing (EvQuery sql args) = False"
| "closing (EvExec stmt m) = False"

record tx =
  rows :: "ReactionModel list"
  pending :: "ReactionModel list"
  status :: txStatus
  trace :: "event list"

text \<open>
  What \<open>tx.Commit()\<close> can do: succeed; fail in the store, which closes the transaction
  without committing; or return the context's error before anything is sent, which
  leaves the transaction open.
\<close>

datatype commitOutcome = CommitOK | CommitError error | CommitCancelled error

text \<open>
  Everything the handlers take from outside reaction_handler.go, as parameters:
  the store's failures and answers, the clock, and the functions and types of this
  repository that are declared in other files (\<open>fillUserResponseV2\<close>,
  \<open>fillLivestreamResponse\<close>, the field \<open>ID\<close> of \<open>Livestream\<close>, and the zero values of
  \<open>User\<close> and \<open>Livestream\<close>). \<open>'um\<close> is \<open>UserModel\<close> and \<open>'lm\<close> is \<open>*LivestreamModel\<close>.
\<close>

record ('um, 'u, 'lm, 'l) env =
  beginTxxErr :: "error option"
  selectReactionsErr :: "error option"
  selectUsers :: "int64 list \<Rightarrow> error + 'um list"
  selectLivestreams :: "int64 list \<Rightarrow> error + 'lm list"
  fillUserResponseV2 :: "tx \<Rightarrow> 'um list \<Rightarrow> error + (int64 \<rightharpoonup> 'u)"
  fillLivestreamResponse :: "tx \<Rightarrow> 'lm list \<Rightarrow> error + 'l list"
  getLivestreamID :: "'l \<Rightarrow> int64"
  zeroUser :: 'u
  zeroLivestream :: 'l
  execInsertErr :: "error option"
  assignedID :: int64
  lastInsertIdErr :: "error option"
  commitResult :: commitOutcome
  timeNowUnix :: int64

definition ErrTxDone :: error where
  "ErrTxDone = Error ''sql: transaction has already been committed or rolled back''"

definition BeginTxx :: "('um, 'u, 'lm, 'l) env \<Rightarrow> ReactionModel list \<Rightarrow> error + tx" where
  "BeginTxx env db =
     (case beginTxxErr env of
        Some e \<Rightarrow> Inl e
      | None \<Rightarrow> Inr \<lparr>rows = db, pending = [], status = Active, trace = []\<rparr>)"

definition Commit :: "('um, 'u, 'lm, 'l) env \<Rightarrow> tx \<Rightarrow> error option \<times> tx" where
  "Commit env t =
     (if status t \<noteq> Active then (Some ErrTxDone, t)
      else
        (case commitResult env of
           CommitCancelled e \<Rightarrow> (Some e, t)
         | CommitError e \<Rightarrow>
             (Some e, t\<lparr>pending := [], status := CommitFailed, trace := trace t @ [EvCommit]\<rparr>)
         | CommitOK \<Rightarrow>
             (None, t\<lparr>rows := rows t @ pending t, pending := [], status := Committed,
                      trace := trace t @ [EvCommit]\<rparr>)))"

text \<open>
  \<open>tx.Rollback()\<close>, whose error the deferred call drops: on a transaction that is
  already closed it returns \<open>ErrTxDone\<close> and does nothing.
\<close>

definition Rollback :: "tx \<Rightarrow> tx" where
  "Rollback t =
     (if status t \<noteq> Active then t
      else t\<lparr>pending := [], status := RolledBack, trace := trace t @ [EvRollback]\<rparr>)"

subsection \<open>The statements the handlers send\<close>

definition reactionsQuery :: string where
  "reactionsQuery = ''SELECT * FROM reactions WHERE livestream_id = ? ORDER BY created_at DESC''"

definition usersQuery :: string where
  "usersQuery = ''SELECT * FROM users WHERE id IN (?)''"

definition livestreamsQuery :: string where
  "livestreamsQuery = ''SELECT * FROM livestreams WHERE id IN (?)''"

definition insertStmt :: string where
  "insertStmt = ''INSERT INTO reactions (user_id, livestream_id, emoji_name, created_at) VALUES (:user_id, :livestream_id, :emoji_name, :created_at)''"

subsection \<open>The store's reading of a statement\<close>

text \<open>
  The store reads the text of each statement on \<open>reactions\<close>. A statement is cut into
  words at blanks, parentheses and commas.
\<close>

definition isSeparator :: "char \<Rightarrow> bool" where
  "isSeparator c = (c = CHR '' '' \<or> c = CHR ''('' \<or> c = CHR '')'' \<or> c = CHR '','')"

fun tokensAcc :: "string \<Rightarrow> string \<Rightarrow> string list" where
  "tokensAcc w [] = (if w = [] then [] else [w])"
| "tokensAcc w (c # cs) =
     (if isSeparator c
      then (if w = [] then tokensAcc [] cs else w # tokensAcc [] cs)
      else tokensAcc (w @ [c]) cs)"

definition tokens :: "string \<Rightarrow> string list" where
  "tokens s = tokensAcc [] s"

text \<open>
  The columns of \<open>reactions\<close>, under the names of the \<open>db\<close> tags of \<open>ReactionModel\<close>
  (lines 17 to 23): the integer columns as functions of a row, the value of a column,
  and a row with one column set.
\<close>

datatype sqlValue = IntValue int64 | TextValue string

definition intColumn :: "string \<Rightarrow> (ReactionModel \<Rightarrow> int64) option" where
  "intColumn col =
     (if col = ''id'' then Some ReactionModel.ID
      else if col = ''user_id'' then Some ReactionModel.UserID
      else if col = ''livestream_id'' then Some ReactionModel.LivestreamID
      else if col = ''created_at'' then Some ReactionModel.CreatedAt
      else None)"

definition columnValue :: "string \<Rightarrow> ReactionModel \<Rightarrow> sqlValue option" where
  "columnValue col r =
     (if col = ''emoji_name'' then Some (TextValue (ReactionModel.EmojiName r))
      else (case intColumn col of None \<Rightarrow> None | Some f \<Rightarrow> Some (IntValue (f r))))"

definition setColumn :: "string \<Rightarrow> sqlValue \<Rightarrow> ReactionModel \<Rightarrow> ReactionModel option" where
  "setColumn col v r =
     (case v of
        IntValue i \<Rightarrow>
          (if col = ''id'' then Some (r\<lparr>ReactionModel.ID := i\<rparr>)
           else if col = ''user_id'' then Some (r\<lparr>ReactionModel.UserID := i\<rparr>)
           else if col = ''livestream_id'' then Some (r\<lparr>ReactionModel.LivestreamID := i\<rparr>)
           else if col = ''created_at'' then Some (r\<lparr>ReactionModel.CreatedAt := i\<rparr>)
           else None)
      | TextValue s \<Rightarrow>
          (if col = ''emoji_name'' then Some (r\<lparr>ReactionModel.EmojiName := s\<rparr>) else None))"

definition syntaxError :: error where
  "syntaxError = Error ''You have an error in your SQL syntax''"

definition noSuchTable :: error where
  "noSuchTable = Error ''Unknown table''"

definition unknownColumn :: error where
  "unknownColumn = Error ''Unknown column''"

text \<open>
  The queries the store understands:
  \<open>SELECT * FROM table [WHERE column = ?] [ORDER BY column [ASC | DESC]] [LIMIT n]\<close>,
  with \<open>n\<close> an unsigned decimal number. \<open>orderColumn\<close> holds the column and whether the
  order is descending.
\<close>

record selectStmt =
  fromTable :: string
  whereColumn :: "string option"
  orderColumn :: "(string \<times> bool) option"
  limitRows :: "nat option"

definition parseWhere :: "string list \<Rightarrow> string option \<times> string list" where
  "parseWhere ts =
     (case ts of
        w # col # eq # q # rest \<Rightarrow>
          if w = ''WHERE'' \<and> eq = ''='' \<and> q = ''?'' then (Some col, rest) else (None, ts)
      | _ \<Rightarrow> (None, ts))"

definition parseOrderBy :: "string list \<Rightarrow> (string \<times> bool) option \<times> string list" where
  "parseOrderBy ts =
     (case ts of
        ob # by # col # rest \<Rightarrow>
          if ob = ''ORDER'' \<and> by = ''BY''
          then (case rest of
                  [] \<Rightarrow> (Some (col, False), rest)
                | dir # rest' \<Rightarrow>
                    if dir = ''DESC'' then (Some (col, True), rest')
                    else if dir = ''ASC'' then (Some (col, False), rest')
                    else (Some (col, False), rest))
          else (None, ts)
      | _ \<Rightarrow> (None, ts))"

definition parseLimit :: "string list \<Rightarrow> nat option option" where
  "parseLimit ts =
     (case ts of
        [] \<Rightarrow> Some None
      | [l, n] \<Rightarrow>
          if l = ''LIMIT'' \<and> n \<noteq> []
          then (case parseDigits 0 n of None \<Rightarrow> None | Some k \<Rightarrow> Some (Some (nat k)))
          else None
      | _ \<Rightarrow> None)"

definition parseSelect :: "string list \<Rightarrow> selectStmt option" where
  "parseSelect ts =
     (case ts of
        s # star # f # tbl # rest \<Rightarrow>
          if s = ''SELECT'' \<and> star = ''*'' \<and> f = ''FROM''
          then (case parseWhere rest of
                  (w, rest1) \<Rightarrow>
                    (case parseOrderBy rest1 of
                       (ob, rest2) \<Rightarrow>
                         (case parseLimit rest2 of
                            None \<Rightarrow> None
                          | Some l \<Rightarrow>
                              Some \<lparr>fromTable = tbl, whereColumn = w, orderColumn = ob,
                                    limitRows = l\<rparr>)))
          else None
      | _ \<Rightarrow> None)"

text \<open>
  The answer to a query on the rows \<open>table\<close> of \<open>reactions\<close>, with \<open>arg\<close> bound to the
  \<open>?\<close>: the rows whose column equals \<open>arg\<close>, put in the order asked for (rows that the
  order does not tell apart stay in table order), and the first \<open>n\<close> of them after
  \<open>LIMIT n\<close>.
\<close>

definition runSelect :: "ReactionModel list \<Rightarrow> selectStmt \<Rightarrow> int64 \<Rightarrow> error + ReactionModel list" where
  "runSelect table q arg =
     (if fromTable q \<noteq> ''reactions'' then Inl noSuchTable
      else
        (case (case whereColumn q of
                 None \<Rightarrow> Some table
               | Some col \<Rightarrow>
                   (case intColumn col of
                      None \<Rightarrow> None
                    | Some f \<Rightarrow> Some (filter (\<lambda>r. f r = arg) table))) of
           None \<Rightarrow> Inl unknownColumn
         | Some matching \<Rightarrow>
             (case (case orderColumn q of
                      None \<Rightarrow> Some matching
                    | Some (col, desc) \<Rightarrow>
                        (case intColumn col of
                           None \<Rightarrow> None
                         | Some f \<Rightarrow>
                             Some (if desc then sort_key (\<lambda>r. - f r) matching
                                   else sort_key f matching))) of
                None \<Rightarrow> Inl unknownColumn
              | Some ordered \<Rightarrow>
                  Inr (case limitRows q of None \<Rightarrow> ordered | Some n \<Rightarrow> take n ordered))))"

definition runReactionsQuery :: "ReactionModel list \<Rightarrow> string \<Rightarrow> int64 \<Rightarrow> error + ReactionModel list" where
  "runReactionsQuery table query arg =
     (case parseSelect (tokens query) of
        None \<Rightarrow> Inl syntaxError
      | Some q \<Rightarrow> runSelect table q arg)"

text \<open>
  The writes the store understands:
  \<open>INSERT INTO table (column, ...) VALUES (:name, ...)\<close>, with as many names as
  columns. \<open>parseInsert\<close> gives the table and, for each column, the name bound to it.
\<close>

definition parseInsert :: "string list \<Rightarrow> (string \<times> (string \<times> string) list) option" where
  "parseInsert ts =
     (case ts of
        i # into # tbl # rest \<Rightarrow>
          (let cols = takeWhile (\<lambda>t. t \<noteq> ''VALUES'') rest;
               params = drop 1 (dropWhile (\<lambda>t. t \<noteq> ''VALUES'') rest)
           in if i = ''INSERT'' \<and> into = ''INTO'' \<and> cols \<noteq> [] \<and> length cols = length params \<and>
                 list_all (\<lambda>p. p \<noteq> [] \<and> hd p = CHR '':'') params
              then Some (tbl, zip cols (map tl params))
              else None)
      | _ \<Rightarrow> None)"

text \<open>
  The row of an INSERT: each column takes the value of the field of the struct whose
  \<open>db\<close> tag is the name bound to it.
\<close>

fun bindColumns :: "(string \<times> string) list \<Rightarrow> ReactionModel \<Rightarrow> ReactionModel \<Rightarrow> ReactionModel option" where
  "bindColumns [] m row = Some row"
| "bindColumns ((col, name) # rest) m row =
     (case columnValue name m of
        None \<Rightarrow> None
      | Some v \<Rightarrow>
          (case setColumn col v row of
             None \<Rightarrow> None
           | Some row' \<Rightarrow> bindColumns rest m row'))"

text \<open>
  The row that a statement writes to \<open>reactions\<close> from the struct \<open>m\<close>. A column the
  statement does not name has its default: the ID that the store assigns, zero, or the
  empty text.
\<close>

definition insertedRow :: "int64 \<Rightarrow> string \<Rightarrow> ReactionModel \<Rightarrow> error + ReactionModel" where
  "insertedRow newID stmt m =
     (case parseInsert (tokens stmt) of
        None \<Rightarrow> Inl syntaxError
      | Some (tbl, cols) \<Rightarrow>
          if tbl \<noteq> ''reactions'' then Inl noSuchTable
          else
            (case bindColumns cols m
                    \<lparr>ReactionModel.ID = newID, EmojiName = [], UserID = 0, LivestreamID = 0,
                     CreatedAt = 0\<rparr> of
               None \<Rightarrow> Inl unknownColumn
             | Some row \<Rightarrow> Inr row))"

text \<open>
  What the spec says of \<open>listFacts\<close>: the facts of the livestream, ordered by creation
  time, latest first.
\<close>

definition orderedFacts :: "ReactionModel list \<Rightarrow> int64 \<Rightarrow> ReactionModel list" where
  "orderedFacts table arg =
     sort_key (\<lambda>r. - ReactionModel.CreatedAt r)
       (filter (\<lambda>r. ReactionModel.LivestreamID r = arg) table)"

text \<open>
  \<open>tx.SelectContext\<close> for the three queries. Each call sends one statement, recorded in
  the trace with its arguments. A transaction reads the committed rows and its own
  writes.
\<close>

definition selectReactions ::
  "('um, 'u, 'lm, 'l) env \<Rightarrow> tx \<Rightarrow> string \<Rightarrow> int64 \<Rightarrow> (error + ReactionModel list) \<times> tx" where
  "selectReactions env t query arg =
     (let t' = t\<lparr>trace := trace t @ [EvQuery query [arg]]\<rparr>
      in case selectReactionsErr env of
           Some e \<Rightarrow> (Inl e, t')
         | None \<Rightarrow> (runReactionsQuery (rows t @ pending t) query arg, t'))"

definition selectUsersCtx ::
  "('um, 'u, 'lm, 'l) env \<Rightarrow> tx \<Rightarrow> string \<Rightarrow> int64 list \<Rightarrow> (error + 'um list) \<times> tx" where
  "selectUsersCtx env t sql args = (selectUsers env args, t\<lparr>trace := trace t @ [EvQuery sql args]\<rparr>)"

definition selectLivestreamsCtx ::
  "('um, 'u, 'lm, 'l) env \<Rightarrow> tx \<Rightarrow> string \<Rightarrow> int64 list \<Rightarrow> (error + 'lm list) \<times> tx" where
  "selectLivestreamsCtx env t sql args =
     (selectLivestreams env args, t\<lparr>trace := trace t @ [EvQuery sql args]\<rparr>)"

text \<open>
  \<open>tx.NamedExecContext\<close> with a statement and the struct that gives its named
  parameters, followed by \<open>result.LastInsertId()\<close>. The row that the statement
  describes joins the writes of the transaction.
\<close>

definition NamedExecContext ::
  "('um, 'u, 'lm, 'l) env \<Rightarrow> tx \<Rightarrow> string \<Rightarrow> ReactionModel \<Rightarrow> (error + (error + int64)) \<times> tx" where
  "NamedExecContext env t stmt m =
     (let t' = t\<lparr>trace := trace t @ [EvExec stmt m]\<rparr>
      in case execInsertErr env of
           Some e \<Rightarrow> (Inl e, t')
         | None \<Rightarrow>
             (case insertedRow (assignedID env) stmt m of
                Inl e \<Rightarrow> (Inl e, t')
              | Inr row \<Rightarrow>
                  (Inr (case lastInsertIdErr env of Some e \<Rightarrow> Inl e | None \<Rightarrow> Inr (assignedID env)),
                   t'\<lparr>pending := pending t' @ [row]\<rparr>)))"

section \<open>fillReactionResponse\<close>

text \<open>Indexing a Go map: the zero value of the element type when the key is absent.\<close>

definition mapIndex :: "'v \<Rightarrow> ('k \<rightharpoonup> 'v) \<Rightarrow> 'k \<Rightarrow> 'v" where
  "mapIndex zero m k = (case m k of None \<Rightarrow> zero | Some v \<Rightarrow> v)"

text \<open>
  Lines 142 to 161: the user rows of \<open>userIds\<close>, one query unless the slice is empty,
  then \<open>fillUserResponseV2\<close> on the rows.
\<close>

definition resolveUsers ::
  "('um, 'u, 'lm, 'l) env \<Rightarrow> tx \<Rightarrow> int64 list \<Rightarrow> (error + (int64 \<rightharpoonup> 'u)) \<times> tx" where
  "resolveUsers env t userIds =
     (case (if userIds \<noteq> []
            then (case sqlxIn usersQuery userIds of (sql, args) \<Rightarrow> selectUsersCtx env t sql args)
            else (Inr [], t)) of
        (Inl err, t1) \<Rightarrow> (Inl err, t1)
      | (Inr reactionOwnerModels, t1) \<Rightarrow> (fillUserResponseV2 env t1 reactionOwnerModels, t1))"

text \<open>
  Lines 162 to 178: the livestream rows of \<open>livestreamIds\<close>, \<open>fillLivestreamResponse\<close> on
  them, and the map from \<open>livestream.ID\<close> to the livestream, filled in the order of the
  slice (a later livestream with the same ID replaces an earlier one).
\<close>

definition resolveLivestreams ::
  "('um, 'u, 'lm, 'l) env \<Rightarrow> tx \<Rightarrow> int64 list \<Rightarrow> (error + (int64 \<rightharpoonup> 'l)) \<times> tx" where
  "resolveLivestreams env t livestreamIds =
     (if livestreamIds \<noteq> []
      then
        (case sqlxIn livestreamsQuery livestreamIds of
           (sql, args) \<Rightarrow>
             (case selectLivestreamsCtx env t sql args of
                (Inl err, t1) \<Rightarrow> (Inl err, t1)
              | (Inr livestreamModels, t1) \<Rightarrow>
                  (case fillLivestreamResponse env t1 livestreamModels of
                     Inl err \<Rightarrow> (Inl err, t1)
                   | Inr livestreams \<Rightarrow>
                       (Inr (fold (\<lambda>livestream m. m(getLivestreamID env livestream \<mapsto> livestream))
                               livestreams Map.empty), t1))))
      else (Inr Map.empty, t))"

text \<open>Lines 179 to 189: the loop that builds the responses.\<close>

definition assemble ::
  "('um, 'u, 'lm, 'l) env \<Rightarrow> (int64 \<rightharpoonup> 'u) \<Rightarrow> (int64 \<rightharpoonup> 'l) \<Rightarrow> ReactionModel list \<Rightarrow>
     ('u, 'l) Reaction list" where
  "assemble env reactionOwnerMap livestreamIdToLivestreamMap reactionModels =
     map (\<lambda>reactionModel.
            \<lparr>Reaction.ID = ReactionModel.ID reactionModel,
             EmojiName = ReactionModel.EmojiName reactionModel,
             User = mapIndex (zeroUser env) reactionOwnerMap (ReactionModel.UserID reactionModel),
             Livestream = mapIndex (zeroLivestream env) livestreamIdToLivestreamMap
                            (ReactionModel.LivestreamID reactionModel),
             CreatedAt = ReactionModel.CreatedAt reactionModel\<rparr>)
         reactionModels"

definition fillReactionResponse ::
  "('um, 'u, 'lm, 'l) env \<Rightarrow> tx \<Rightarrow> ReactionModel list \<Rightarrow> (error + ('u, 'l) Reaction list) \<times> tx" where
  "fillReactionResponse env t reactionModels =
     (let userIds = map ReactionModel.UserID reactionModels;
          livestreamIds = map ReactionModel.LivestreamID reactionModels
      in case resolveUsers env t userIds of
           (Inl err, t1) \<Rightarrow> (Inl err, t1)
         | (Inr reactionOwnerMap, t1) \<Rightarrow>
             (case resolveLivestreams env t1 livestreamIds of
                (Inl err, t2) \<Rightarrow> (Inl err, t2)
              | (Inr livestreamIdToLivestreamMap, t2) \<Rightarrow>
                  (Inr (assemble env reactionOwnerMap livestreamIdToLivestreamMap reactionModels),
                   t2)))"

section \<open>The handlers\<close>

text \<open>
  What a handler does to the request: an \<open>echo.HTTPError\<close> with its status and message,
  a JSON response with its status, or a panic.
\<close>

datatype 'a response = HTTPError nat string | JSON nat 'a | Panic string

definition StatusOK :: nat where "StatusOK = 200"
definition StatusCreated :: nat where "StatusCreated = 201"
definition StatusBadRequest :: nat where "StatusBadRequest = 400"
definition StatusNotFound :: nat where "StatusNotFound = 404"
definition StatusInternalServerError :: nat where "StatusInternalServerError = 500"

text \<open>
  What the handlers read from the \<open>echo.Context\<close>: the result of \<open>verifyUserSession\<close>
  (declared in another file; \<open>Some\<close> is the HTTP error it returns), the path parameter,
  the query parameter \<open>limit\<close> (\<open>c.QueryParam\<close> gives the empty string when it is
  absent), the session's value under the user-ID key when it is an \<open>int64\<close> (\<open>None\<close>
  makes the type assertion panic), and what decoding the body gives: an error, or the
  request, \<open>None\<close> for the JSON text \<open>null\<close>, which leaves the pointer \<open>nil\<close>.
\<close>

record request =
  verifyUserSession :: "(nat \<times> string) option"
  livestream_id :: string
  limit :: string
  sessionUserID :: "int64 option"
  body :: "error + PostReactionRequest option"

text \<open>
  Lines 56 to 63: the text of the fact query; \<open>None\<close> when the handler returns the
  error for a \<open>limit\<close> that \<open>Atoi\<close> refuses. Lines 65 to 78 follow: the part of the
  handler that runs inside the transaction.
\<close>

definition buildQuery :: "request \<Rightarrow> string option" where
  "buildQuery req =
     (if limit req \<noteq> []
      then (case Atoi (limit req) of
              None \<Rightarrow> None
            | Some n \<Rightarrow> Some (reactionsQuery @ '' LIMIT '' @ showInt n))
      else Some reactionsQuery)"

definition getReactionsTx ::
  "('um, 'u, 'lm, 'l) env \<Rightarrow> tx \<Rightarrow> request \<Rightarrow> int64 \<Rightarrow> ('u, 'l) Reaction list response \<times> tx" where
  "getReactionsTx env t req livestreamID =
     (case buildQuery req of
        None \<Rightarrow> (HTTPError StatusBadRequest ''limit query parameter must be integer'', t)
      | Some query \<Rightarrow>
          (case selectReactions env t query livestreamID of
             (Inl err, t1) \<Rightarrow> (HTTPError StatusNotFound ''failed to get reactions'', t1)
           | (Inr reactionModels, t1) \<Rightarrow>
               (case fillReactionResponse env t1 reactionModels of
                  (Inl err, t2) \<Rightarrow>
                    (HTTPError StatusInternalServerError
                       (''failed to fill reaction: '' @ errorMsg err), t2)
                | (Inr reactions, t2) \<Rightarrow>
                    (case Commit env t2 of
                       (Some err, t3) \<Rightarrow>
                         (HTTPError StatusInternalServerError
                            (''failed to commit: '' @ errorMsg err), t3)
                     | (None, t3) \<Rightarrow> (JSON StatusOK reactions, t3)))))"

text \<open>
  The handler on the committed table \<open>db\<close>. The second component is the transaction as
  the handler leaves it, \<open>None\<close> when none was begun. The deferred \<open>tx.Rollback()\<close> runs
  on whatever the rest of the handler returns.
\<close>

definition getReactionsHandler ::
  "('um, 'u, 'lm, 'l) env \<Rightarrow> ReactionModel list \<Rightarrow> request \<Rightarrow>
     ('u, 'l) Reaction list response \<times> tx option" where
  "getReactionsHandler env db req =
     (case verifyUserSession req of
        Some (code, msg) \<Rightarrow> (HTTPError code msg, None)
      | None \<Rightarrow>
          (case Atoi (livestream_id req) of
             None \<Rightarrow> (HTTPError StatusBadRequest ''livestream_id in path must be integer'', None)
           | Some livestreamID \<Rightarrow>
               (case BeginTxx env db of
                  Inl err \<Rightarrow>
                    (HTTPError StatusInternalServerError
                       (''failed to begin transaction: '' @ errorMsg err), None)
                | Inr t \<Rightarrow>
                    (case getReactionsTx env t req livestreamID of
                       (r, t') \<Rightarrow> (r, Some (Rollback t'))))))"

text \<open>Lines 109 to 138: the part of the handler that runs inside the transaction.\<close>

definition postReactionTx ::
  "('um, 'u, 'lm, 'l) env \<Rightarrow> tx \<Rightarrow> PostReactionRequest option \<Rightarrow> int64 \<Rightarrow> int64 \<Rightarrow>
     ('u, 'l) Reaction response \<times> tx" where
  "postReactionTx env t req userID livestreamID =
     (case req of
        None \<Rightarrow> (Panic ''invalid memory address or nil pointer dereference'', t)
      | Some rq \<Rightarrow>
          (let reactionModel =
                 \<lparr>ReactionModel.ID = 0,
                  EmojiName = PostReactionRequest.EmojiName rq,
                  UserID = userID,
                  LivestreamID = livestreamID,
                  CreatedAt = timeNowUnix env\<rparr>
           in case NamedExecContext env t insertStmt reactionModel of
                (Inl err, t1) \<Rightarrow>
                  (HTTPError StatusInternalServerError
                     (''failed to insert reaction: '' @ errorMsg err), t1)
              | (Inr (Inl err), t1) \<Rightarrow>
                  (HTTPError StatusInternalServerError
                     (''failed to get last inserted reaction id: '' @ errorMsg err), t1)
              | (Inr (Inr reactionID), t1) \<Rightarrow>
                  (case fillReactionResponse env t1
                          [reactionModel\<lparr>ReactionModel.ID := reactionID\<rparr>] of
                     (Inl err, t2) \<Rightarrow>
                       (HTTPError StatusInternalServerError
                          (''failed to fill reaction: '' @ errorMsg err), t2)
                   | (Inr reactions, t2) \<Rightarrow>
                       (case Commit env t2 of
                          (Some err, t3) \<Rightarrow>
                            (HTTPError StatusInternalServerError
                               (''failed to commit: '' @ errorMsg err), t3)
                        | (None, t3) \<Rightarrow>
                            (case reactions of
                               [] \<Rightarrow> (Panic ''index out of range [0] with length 0'', t3)
                             | reaction # _ \<Rightarrow> (JSON StatusCreated reaction, t3))))))"

definition postReactionHandler ::
  "('um, 'u, 'lm, 'l) env \<Rightarrow> ReactionModel list \<Rightarrow> request \<Rightarrow>
     ('u, 'l) Reaction response \<times> tx option" where
  "postReactionHandler env db req =
     (case Atoi (livestream_id req) of
        None \<Rightarrow> (HTTPError StatusBadRequest ''livestream_id in path must be integer'', None)
      | Some livestreamID \<Rightarrow>
          (case verifyUserSession req of
             Some (code, msg) \<Rightarrow> (HTTPError code msg, None)
           | None \<Rightarrow>
               (case sessionUserID req of
                  None \<Rightarrow> (Panic ''interface conversion: interface {} is not int64'', None)
                | Some userID \<Rightarrow>
                    (case body req of
                       Inl err \<Rightarrow>
                         (HTTPError StatusBadRequest
                            ''failed to decode the request body as json'', None)
                     | Inr rq \<Rightarrow>
                         (case BeginTxx env db of
                            Inl err \<Rightarrow>
                              (HTTPError StatusInternalServerError
                                 (''failed to begin transaction: '' @ errorMsg err), None)
                          | Inr t \<Rightarrow>
                              (case postReactionTx env t rq userID livestreamID of
                                 (r, t') \<Rightarrow> (r, Some (Rollback t'))))))))"

section \<open>A small store to run the handlers on\<close>

definition exUsers :: "(int64 \<times> string) list" where
  "exUsers = [(7, ''alice''), (8, ''bob'')]"

definition exLivestreams :: "(int64 \<times> string) list" where
  "exLivestreams = [(42, ''stream'')]"

text \<open>
  A store in which nothing fails. User and livestream rows are pairs of an ID and a
  name, the two functions from other files keep them as they are, and the zero values
  are the pair of 0 and the empty name.
\<close>

definition exEnv :: "(int64 \<times> string, int64 \<times> string, int64 \<times> string, int64 \<times> string) env" where
  "exEnv =
     \<lparr>beginTxxErr = None,
      selectReactionsErr = None,
      selectUsers = (\<lambda>ids. Inr (filter (\<lambda>u. fst u \<in> set ids) exUsers)),
      selectLivestreams = (\<lambda>ids. Inr (filter (\<lambda>l. fst l \<in> set ids) exLivestreams)),
      fillUserResponseV2 = (\<lambda>t ums. Inr (map_of (map (\<lambda>u. (fst u, u)) ums))),
      fillLivestreamResponse = (\<lambda>t lms. Inr lms),
      getLivestreamID = fst,
      zeroUser = (0, []),
      zeroLivestream = (0, []),
      execInsertErr = None,
      assignedID = 101,
      lastInsertIdErr = None,
      commitResult = CommitOK,
      timeNowUnix = 1700000000\<rparr>"

definition exRow :: "int64 \<Rightarrow> int64 \<Rightarrow> int64 \<Rightarrow> ReactionModel" where
  "exRow i u ts =
     \<lparr>ReactionModel.ID = i, EmojiName = ''fire'', UserID = u, LivestreamID = 42, CreatedAt = ts\<rparr>"

text \<open>Three reactions on livestream 42; user 99 has no row in \<open>exUsers\<close>.\<close>

definition exDb :: "ReactionModel list" where
  "exDb = [exRow 1 7 100, exRow 2 7 300, exRow 3 99 200]"

definition exTx :: tx where
  "exTx = \<lparr>rows = exDb, pending = [], status = Active, trace = []\<rparr>"

definition exReq :: "string \<Rightarrow> request" where
  "exReq l =
     \<lparr>verifyUserSession = None, livestream_id = ''42'', limit = l, sessionUserID = Some 7,
      body = Inr (Some \<lparr>EmojiName = ''fire''\<rparr>)\<rparr>"


text \<open>The same store when the fact query fails, and when the livestream query fails.\<close>

definition exEnvFactQueryFails ::
  "(int64 \<times> string, int64 \<times> string, int64 \<times> string, int64 \<times> string) env" where
  "exEnvFactQueryFails = exEnv\<lparr>selectReactionsErr := Some (Error ''connection refused'')\<rparr>"

definition exEnvLivestreamQueryFails ::
  "(int64 \<times> string, int64 \<times> string, int64 \<times> string, int64 \<times> string) env" where
  "exEnvLivestreamQueryFails = exEnv\<lparr>selectLivestreams := (\<lambda>ids. Inl (Error ''connection lost''))\<rparr>"

section \<open>Properties of fillReactionResponse\<close>

lemma resolveUsers_unfold:
  "resolveUsers env t ids =
     (if ids = [] then (fillUserResponseV2 env t [], t)
      else (let t1 = t\<lparr>trace := trace t @ [EvQuery (expandIn usersQuery (length ids)) ids]\<rparr>
            in case selectUsers env ids of
                 Inl err \<Rightarrow> (Inl err, t1)
               | Inr ums \<Rightarrow> (fillUserResponseV2 env t1 ums, t1)))"
  by (simp add: resolveUsers_def sqlxIn_def selectUsersCtx_def Let_def split: sum.splits)

lemma resolveLivestreams_unfold:
  "resolveLivestreams env t ids =
     (if ids = [] then (Inr Map.empty, t)
      else (let t1 = t\<lparr>trace := trace t @ [EvQuery (expandIn livestreamsQuery (length ids)) ids]\<rparr>
            in case selectLivestreams env ids of
                 Inl err \<Rightarrow> (Inl err, t1)
               | Inr lms \<Rightarrow>
                   (case fillLivestreamResponse env t1 lms of
                      Inl err \<Rightarrow> (Inl err, t1)
                    | Inr ls \<Rightarrow>
                        (Inr (fold (\<lambda>livestream m. m(getLivestreamID env livestream \<mapsto> livestream))
                                ls Map.empty), t1))))"
  by (simp add: resolveLivestreams_def sqlxIn_def selectLivestreamsCtx_def Let_def split: sum.splits)

lemma fillReactionResponse_Inr:
  "fillReactionResponse env t ms = (Inr rs, t') \<longleftrightarrow>
     (\<exists>um lm t1.
        resolveUsers env t (map ReactionModel.UserID ms) = (Inr um, t1) \<and>
        resolveLivestreams env t1 (map ReactionModel.LivestreamID ms) = (Inr lm, t') \<and>
        rs = assemble env um lm ms)"
  by (auto simp: fillReactionResponse_def Let_def split: prod.splits sum.splits)

lemma length_assemble: "length (assemble env um lm ms) = length ms"
  by (simp add: assemble_def)

lemma nth_assemble:
  "i < length ms \<Longrightarrow>
     assemble env um lm ms ! i =
       \<lparr>Reaction.ID = ReactionModel.ID (ms ! i),
        EmojiName = ReactionModel.EmojiName (ms ! i),
        User = mapIndex (zeroUser env) um (ReactionModel.UserID (ms ! i)),
        Livestream = mapIndex (zeroLivestream env) lm (ReactionModel.LivestreamID (ms ! i)),
        CreatedAt = ReactionModel.CreatedAt (ms ! i)\<rparr>"
  by (simp add: assemble_def)

lemma resolveUsers_frame:
  "resolveUsers env t ids = (r, t1) \<Longrightarrow>
     rows t1 = rows t \<and> pending t1 = pending t \<and> status t1 = status t"
  by (auto simp: resolveUsers_unfold Let_def split: if_splits sum.splits)

lemma resolveLivestreams_frame:
  "resolveLivestreams env t ids = (r, t1) \<Longrightarrow>
     rows t1 = rows t \<and> pending t1 = pending t \<and> status t1 = status t"
  by (auto simp: resolveLivestreams_unfold Let_def split: if_splits sum.splits)

lemma fillReactionResponse_frame:
  "fillReactionResponse env t ms = (r, t') \<Longrightarrow>
     rows t' = rows t \<and> pending t' = pending t \<and> status t' = status t"
  by (auto simp: fillReactionResponse_def Let_def split: prod.splits sum.splits
      dest!: resolveUsers_frame resolveLivestreams_frame)

text \<open>
  C1. When \<open>fillReactionResponse\<close> succeeds, it returns one response for each fact it
  was given, in the order of the facts: the \<open>i\<close>-th response carries the ID, the emoji
  name and the creation time of the \<open>i\<close>-th fact.
\<close>

theorem fillReactionResponse_one_per_fact_in_order:
  assumes "fillReactionResponse env t reactionModels = (Inr reactions, t')"
  shows "length reactions = length reactionModels \<and>
         map Reaction.ID reactions = map ReactionModel.ID reactionModels \<and>
         map Reaction.EmojiName reactions = map ReactionModel.EmojiName reactionModels \<and>
         map Reaction.CreatedAt reactions = map ReactionModel.CreatedAt reactionModels"
proof -
  from assms obtain um lm where "reactions = assemble env um lm reactionModels"
    by (auto simp: fillReactionResponse_Inr)
  then show ?thesis by (simp add: assemble_def comp_def)
qed


lemma succeeds_as_pair: "isl (fst p) = False \<Longrightarrow> \<exists>r t. p = (Inr r, t)"
  by (cases p; cases "fst p") auto

theorem fillReactionResponse_one_per_fact_in_order_witness:
  "\<exists>reactions t'. fillReactionResponse exEnv exTx exDb = (Inr reactions, t') \<and>
     length reactions = 3 \<and> map Reaction.ID reactions = [1, 2, 3]"
proof -
  have "isl (fst (fillReactionResponse exEnv exTx exDb)) = False"
    by code_simp
  then obtain reactions t' where h: "fillReactionResponse exEnv exTx exDb = (Inr reactions, t')"
    using succeeds_as_pair by blast
  have ids: "map ReactionModel.ID exDb = [1, 2, 3]"
    by (simp add: exDb_def exRow_def)
  have len: "length exDb = 3"
    by (simp add: exDb_def)
  from fillReactionResponse_one_per_fact_in_order [OF h] ids len h show ?thesis
    by simp
qed

text \<open>
  C2. Once both lookups have succeeded, \<open>fillReactionResponse\<close> succeeds too, whatever
  the two maps hold: it returns one response per fact, and where a fact's user ID or
  livestream ID is not a key of its map, that field of the fact's response is the zero
  value.
\<close>

theorem fillReactionResponse_lookup_miss:
  assumes u: "resolveUsers env t (map ReactionModel.UserID reactionModels) = (Inr um, t1)"
      and l: "resolveLivestreams env t1 (map ReactionModel.LivestreamID reactionModels) = (Inr lm, t2)"
  shows "\<exists>reactions.
           fillReactionResponse env t reactionModels = (Inr reactions, t2) \<and>
           length reactions = length reactionModels \<and>
           (\<forall>i<length reactionModels.
              Reaction.ID (reactions ! i) = ReactionModel.ID (reactionModels ! i) \<and>
              (um (ReactionModel.UserID (reactionModels ! i)) = None \<longrightarrow>
                 User (reactions ! i) = zeroUser env) \<and>
              (lm (ReactionModel.LivestreamID (reactionModels ! i)) = None \<longrightarrow>
                 Livestream (reactions ! i) = zeroLivestream env))"
proof -
  let ?rs = "assemble env um lm reactionModels"
  have "fillReactionResponse env t reactionModels = (Inr ?rs, t2)"
    using u l by (auto simp: fillReactionResponse_Inr)
  moreover have "length ?rs = length reactionModels"
    by (rule length_assemble)
  moreover have "\<forall>i<length reactionModels.
      Reaction.ID (?rs ! i) = ReactionModel.ID (reactionModels ! i) \<and>
      (um (ReactionModel.UserID (reactionModels ! i)) = None \<longrightarrow> User (?rs ! i) = zeroUser env) \<and>
      (lm (ReactionModel.LivestreamID (reactionModels ! i)) = None \<longrightarrow>
         Livestream (?rs ! i) = zeroLivestream env)"
    by (simp add: nth_assemble mapIndex_def)
  ultimately show ?thesis by blast
qed

theorem fillReactionResponse_lookup_miss_witness:
  "\<exists>reactions t2. fillReactionResponse exEnv exTx exDb = (Inr reactions, t2) \<and>
     length reactions = 3 \<and> Reaction.ID (reactions ! 2) = 3 \<and> User (reactions ! 2) = (0, [])"
proof -
  have "isl (fst (resolveUsers exEnv exTx (map ReactionModel.UserID exDb))) = False"
    by code_simp
  then obtain um t1 where u: "resolveUsers exEnv exTx (map ReactionModel.UserID exDb) = (Inr um, t1)"
    using succeeds_as_pair by blast
  have "isl (fst (resolveLivestreams exEnv (snd (resolveUsers exEnv exTx (map ReactionModel.UserID exDb)))
          (map ReactionModel.LivestreamID exDb))) = False"
    by code_simp
  then have "isl (fst (resolveLivestreams exEnv t1 (map ReactionModel.LivestreamID exDb))) = False"
    using u by simp
  then obtain lm t2 where l: "resolveLivestreams exEnv t1 (map ReactionModel.LivestreamID exDb) = (Inr lm, t2)"
    using succeeds_as_pair by blast
  have "projr (fst (resolveUsers exEnv exTx (map ReactionModel.UserID exDb))) 99 = None"
    by code_simp
  then have miss: "um 99 = None"
    using u by simp
  have facts: "length exDb = 3" "ReactionModel.UserID (exDb ! 2) = 99" "ReactionModel.ID (exDb ! 2) = 3"
    by (simp_all add: exDb_def exRow_def)
  have z: "zeroUser exEnv = (0, [])"
    by (simp add: exEnv_def)
  from fillReactionResponse_lookup_miss [OF u l] obtain reactions where
    r: "fillReactionResponse exEnv exTx exDb = (Inr reactions, t2)"
       "length reactions = length exDb"
       "\<forall>i<length exDb.
          Reaction.ID (reactions ! i) = ReactionModel.ID (exDb ! i) \<and>
          (um (ReactionModel.UserID (exDb ! i)) = None \<longrightarrow> User (reactions ! i) = zeroUser exEnv) \<and>
          (lm (ReactionModel.LivestreamID (exDb ! i)) = None \<longrightarrow>
             Livestream (reactions ! i) = zeroLivestream exEnv)"
    by blast
  have "(2::nat) < length exDb"
    by (simp add: facts)
  with r(3) have "Reaction.ID (reactions ! 2) = ReactionModel.ID (exDb ! 2) \<and>
      (um (ReactionModel.UserID (exDb ! 2)) = None \<longrightarrow> User (reactions ! 2) = zeroUser exEnv)"
    by blast
  with facts miss z have "Reaction.ID (reactions ! 2) = 3 \<and> User (reactions ! 2) = (0, [])"
    by simp
  with r(1) r(2) facts(1) show ?thesis by auto
qed

section \<open>The statements fillReactionResponse sends\<close>

lemma fillReactionResponse_trace:
  assumes "ms \<noteq> []"
  shows "trace (snd (fillReactionResponse env t ms)) =
           trace t @ [EvQuery (expandIn usersQuery (length ms)) (map ReactionModel.UserID ms)] \<or>
         trace (snd (fillReactionResponse env t ms)) =
           trace t @ [EvQuery (expandIn usersQuery (length ms)) (map ReactionModel.UserID ms),
                      EvQuery (expandIn livestreamsQuery (length ms)) (map ReactionModel.LivestreamID ms)]"
  using assms
  by (simp add: fillReactionResponse_def resolveUsers_unfold resolveLivestreams_unfold Let_def
      split: sum.splits prod.splits)

lemma fillReactionResponse_trace_Inr:
  assumes "ms \<noteq> []" and "fillReactionResponse env t ms = (Inr rs, t')"
  shows "trace t' =
           trace t @ [EvQuery (expandIn usersQuery (length ms)) (map ReactionModel.UserID ms),
                      EvQuery (expandIn livestreamsQuery (length ms)) (map ReactionModel.LivestreamID ms)]"
  using assms
  by (auto simp: fillReactionResponse_def resolveUsers_unfold resolveLivestreams_unfold Let_def
      split: sum.splits prod.splits)

text \<open>
  C3, as stated, fails: for two facts of user 7 on livestream 42 the user query is sent
  with the arguments 7, 7 and the livestream query with 42, 42.
\<close>

theorem fillReactionResponse_duplicate_keys_counterexample:
  "trace (snd (fillReactionResponse exEnv exTx [exRow 1 7 100, exRow 2 7 300])) =
     [EvQuery ''SELECT * FROM users WHERE id IN (?, ?)'' [7, 7],
      EvQuery ''SELECT * FROM livestreams WHERE id IN (?, ?)'' [42, 42]] \<and>
   \<not> distinct [7, 7 :: int64] \<and> \<not> distinct [42, 42 :: int64]"
  by code_simp

text \<open>
  C3, amended. For a non-empty sequence of facts, \<open>fillReactionResponse\<close> sends the
  user query once and, unless the user lookup failed, the livestream query once, and
  nothing else; on success it has sent both. The arguments of each query are the keys of
  the facts, one for each fact in the order of the facts: repeated keys are repeated.
\<close>

theorem fillReactionResponse_one_query_per_reference:
  assumes "reactionModels \<noteq> []"
  shows "(trace (snd (fillReactionResponse env t reactionModels)) =
            trace t @ [EvQuery (expandIn usersQuery (length reactionModels))
                         (map ReactionModel.UserID reactionModels)] \<or>
          trace (snd (fillReactionResponse env t reactionModels)) =
            trace t @ [EvQuery (expandIn usersQuery (length reactionModels))
                         (map ReactionModel.UserID reactionModels),
                       EvQuery (expandIn livestreamsQuery (length reactionModels))
                         (map ReactionModel.LivestreamID reactionModels)]) \<and>
         (\<forall>reactions t'.
            fillReactionResponse env t reactionModels = (Inr reactions, t') \<longrightarrow>
            trace t' =
              trace t @ [EvQuery (expandIn usersQuery (length reactionModels))
                           (map ReactionModel.UserID reactionModels),
                         EvQuery (expandIn livestreamsQuery (length reactionModels))
                           (map ReactionModel.LivestreamID reactionModels)])"
  using fillReactionResponse_trace [OF assms] fillReactionResponse_trace_Inr [OF assms]
  by blast

theorem fillReactionResponse_one_query_per_reference_witness:
  "exDb \<noteq> [] \<and>
   (\<exists>reactions t'. fillReactionResponse exEnv exTx exDb = (Inr reactions, t') \<and>
      trace t' = [EvQuery ''SELECT * FROM users WHERE id IN (?, ?, ?)'' [7, 7, 99],
                  EvQuery ''SELECT * FROM livestreams WHERE id IN (?, ?, ?)'' [42, 42, 42]])"
proof -
  have ne: "exDb \<noteq> []"
    by (simp add: exDb_def)
  have "isl (fst (fillReactionResponse exEnv exTx exDb)) = False"
    by code_simp
  then obtain reactions t' where h: "fillReactionResponse exEnv exTx exDb = (Inr reactions, t')"
    using succeeds_as_pair by blast
  have q: "trace exTx @ [EvQuery (expandIn usersQuery (length exDb)) (map ReactionModel.UserID exDb),
                  EvQuery (expandIn livestreamsQuery (length exDb)) (map ReactionModel.LivestreamID exDb)]
         = [EvQuery ''SELECT * FROM users WHERE id IN (?, ?, ?)'' [7, 7, 99],
            EvQuery ''SELECT * FROM livestreams WHERE id IN (?, ?, ?)'' [42, 42, 42]]"
    by code_simp
  from fillReactionResponse_one_query_per_reference [OF ne, of exEnv exTx] h
  have "trace t' = trace exTx @ [EvQuery (expandIn usersQuery (length exDb)) (map ReactionModel.UserID exDb),
                  EvQuery (expandIn livestreamsQuery (length exDb)) (map ReactionModel.LivestreamID exDb)]"
    by blast
  with q h ne show ?thesis by simp
qed




text \<open>
  C10. On a slice of one fact, a successful \<open>fillReactionResponse\<close> returns a slice of
  length one, so \<open>reactions[0]\<close> in \<open>postReactionHandler\<close> never panics.
\<close>

theorem postReactionHandler_index_in_bounds:
  "(\<forall>reactions t'. fillReactionResponse env t [reactionModel] = (Inr reactions, t') \<longrightarrow>
      length reactions = 1) \<and>
   fst (postReactionHandler env db req) \<noteq> Panic ''index out of range [0] with length 0''"
proof -
  have one: "\<And>m t0 rs t'. fillReactionResponse env t0 [m] = (Inr rs, t') \<Longrightarrow> length rs = 1"
    by (auto simp: fillReactionResponse_Inr length_assemble)
  have "\<And>t0 rq u l r t'. postReactionTx env t0 rq u l = (r, t') \<Longrightarrow>
            r \<noteq> Panic ''index out of range [0] with length 0''"
    by (auto simp: postReactionTx_def Let_def split: option.splits prod.splits sum.splits list.splits
        dest!: one)
  then have "fst (postReactionHandler env db req) \<noteq> Panic ''index out of range [0] with length 0''"
    by (auto simp: postReactionHandler_def split: option.splits prod.splits sum.splits)
  with one show ?thesis by blast
qed

theorem postReactionHandler_index_in_bounds_witness:
  "(\<exists>reactions t'. fillReactionResponse exEnv exTx [exRow 101 7 1700000000] = (Inr reactions, t') \<and>
      length reactions = 1) \<and>
   fst (postReactionHandler exEnv exDb (exReq [])) =
     JSON 201 \<lparr>Reaction.ID = 101, EmojiName = ''fire'', User = (7, ''alice''),
               Livestream = (42, ''stream''), CreatedAt = 1700000000\<rparr>"
proof -
  have "isl (fst (fillReactionResponse exEnv exTx [exRow 101 7 1700000000])) = False"
    by code_simp
  then obtain reactions t' where
    h: "fillReactionResponse exEnv exTx [exRow 101 7 1700000000] = (Inr reactions, t')"
    using succeeds_as_pair by blast
  have r: "fst (postReactionHandler exEnv exDb (exReq [])) =
     JSON 201 \<lparr>Reaction.ID = 101, EmojiName = ''fire'', User = (7, ''alice''),
               Livestream = (42, ''stream''), CreatedAt = 1700000000\<rparr>"
    by code_simp
  from postReactionHandler_index_in_bounds [of exEnv exTx "exRow 101 7 1700000000"] h
  have "length reactions = 1" by blast
  with h r show ?thesis by blast
qed

section \<open>getReactionsHandler: the limit parameter\<close>

lemma getReactionsHandler_begun:
  assumes "verifyUserSession req = None" and "Atoi (livestream_id req) = Some lid"
      and "BeginTxx env db = Inr t0"
  shows "getReactionsHandler env db req =
           (fst (getReactionsTx env t0 req lid), Some (Rollback (snd (getReactionsTx env t0 req lid))))"
  using assms by (simp add: getReactionsHandler_def split: prod.splits)

lemma BeginTxx_Inr:
  "BeginTxx env db = Inr t0 \<longleftrightarrow>
     beginTxxErr env = None \<and> t0 = \<lparr>rows = db, pending = [], status = Active, trace = []\<rparr>"
  by (auto simp: BeginTxx_def split: option.splits)

lemma getReactionsHandler_no_tx:
  "snd (getReactionsHandler env db req) = None \<or>
   (\<exists>lid. verifyUserSession req = None \<and> Atoi (livestream_id req) = Some lid \<and> beginTxxErr env = None)"
  by (auto simp: getReactionsHandler_def BeginTxx_def split: option.splits prod.splits sum.splits)

text \<open>
  C5, as stated, fails: \<open>-1\<close> is not a non-negative integer, yet \<open>Atoi\<close> accepts it,
  the fact query is sent with \<open>LIMIT -1\<close> in its text, and the response is the 404 of a
  failed query, not the 400 of a refused parameter.
\<close>

theorem getReactionsHandler_negative_limit_counterexample:
  "Atoi ''-1'' = Some (- 1) \<and>
   fst (getReactionsHandler exEnv exDb (exReq ''-1'')) = HTTPError 404 ''failed to get reactions'' \<and>
   map_option trace (snd (getReactionsHandler exEnv exDb (exReq ''-1''))) =
     Some [EvQuery ''SELECT * FROM reactions WHERE livestream_id = ? ORDER BY created_at DESC LIMIT -1'' [42],
           EvRollback]"
  by code_simp

text \<open>
  C5, amended. A non-empty \<open>limit\<close> that \<open>Atoi\<close> refuses (anything but an optionally
  signed decimal integer in the range of \<open>int\<close>) is answered with status 400 and the
  message of line 60. No statement but the deferred rollback is sent: either no
  transaction was begun, or it is left rolled back with nothing else in its trace.
\<close>

theorem getReactionsHandler_rejects_non_integer_limit:
  assumes "limit req \<noteq> []" and "Atoi (limit req) = None"
  shows "(verifyUserSession req = None \<and> Atoi (livestream_id req) \<noteq> None \<and> beginTxxErr env = None \<longrightarrow>
            getReactionsHandler env db req =
              (HTTPError StatusBadRequest ''limit query parameter must be integer'',
               Some \<lparr>rows = db, pending = [], status = RolledBack, trace = [EvRollback]\<rparr>)) \<and>
         (snd (getReactionsHandler env db req) = None \<or>
          snd (getReactionsHandler env db req) =
            Some \<lparr>rows = db, pending = [], status = RolledBack, trace = [EvRollback]\<rparr>)"
proof -
  have q: "buildQuery req = None"
    using assms by (simp add: buildQuery_def)
  have body: "\<And>t0 lid. getReactionsTx env t0 req lid =
      (HTTPError StatusBadRequest ''limit query parameter must be integer'', t0)"
    by (simp add: getReactionsTx_def q)
  have reached: "getReactionsHandler env db req =
      (HTTPError StatusBadRequest ''limit query parameter must be integer'',
       Some \<lparr>rows = db, pending = [], status = RolledBack, trace = [EvRollback]\<rparr>)"
    if "verifyUserSession req = None" "Atoi (livestream_id req) = Some lid" "beginTxxErr env = None"
    for lid
    using that by (simp add: getReactionsHandler_def BeginTxx_def body Rollback_def)
  show ?thesis
    using reached getReactionsHandler_no_tx [of env db req] by auto
qed

theorem getReactionsHandler_rejects_non_integer_limit_witness:
  "limit (exReq ''abc'') \<noteq> [] \<and> Atoi (limit (exReq ''abc'')) = None \<and>
   getReactionsHandler exEnv exDb (exReq ''abc'') =
     (HTTPError 400 ''limit query parameter must be integer'',
      Some \<lparr>rows = exDb, pending = [], status = RolledBack, trace = [EvRollback]\<rparr>)"
proof -
  have l: "limit (exReq ''abc'') \<noteq> []"
    by (simp add: exReq_def)
  have a: "Atoi (limit (exReq ''abc'')) = None"
    by code_simp
  have r: "verifyUserSession (exReq ''abc'') = None \<and> Atoi (livestream_id (exReq ''abc'')) \<noteq> None \<and>
           beginTxxErr exEnv = None"
    by code_simp
  from getReactionsHandler_rejects_non_integer_limit [OF l a, of exEnv exDb] r l a show ?thesis
    by (simp add: StatusBadRequest_def)
qed

section \<open>getReactionsHandler: failures of the store\<close>

lemma selectReactions_frame:
  "selectReactions env t query arg = (r, t1) \<Longrightarrow>
     rows t1 = rows t \<and> pending t1 = pending t \<and> status t1 = status t \<and>
     trace t1 = trace t @ [EvQuery query [arg]]"
  by (auto simp: selectReactions_def Let_def split: option.splits)

lemma fillReactionResponse_closing:
  "filter closing (trace (snd (fillReactionResponse env t ms))) = filter closing (trace t)"
  by (simp add: fillReactionResponse_def resolveUsers_unfold resolveLivestreams_unfold Let_def
      split: sum.splits prod.splits)

text \<open>
  C6, as stated, fails: when the store refuses the fact query, the response is a 404
  (line 67), not a server error. The transaction is rolled back.
\<close>

theorem getReactionsHandler_query_failure_counterexample:
  "getReactionsHandler exEnvFactQueryFails exDb (exReq []) =
     (HTTPError 404 ''failed to get reactions'',
      Some \<lparr>rows = exDb, pending = [], status = RolledBack,
            trace = [EvQuery ''SELECT * FROM reactions WHERE livestream_id = ? ORDER BY created_at DESC'' [42],
                     EvRollback]\<rparr>)"
  by code_simp

text \<open>
  C6, amended. Inside the transaction of \<open>getReactionsHandler\<close>, a failure of the fact
  query is answered with 404 and the message of line 67, and a failure of
  \<open>fillReactionResponse\<close> (either lookup, or either of the functions that fill users and
  livestreams) with 500 and the error's text. In both cases the deferred rollback is the
  statement that closes the transaction, and the table is as it was.
\<close>

theorem getReactionsHandler_store_failure:
  assumes "verifyUserSession req = None" and "Atoi (livestream_id req) = Some lid"
      and "BeginTxx env db = Inr t0" and "buildQuery req = Some query"
  shows "(\<forall>e t1. selectReactions env t0 query lid = (Inl e, t1) \<longrightarrow>
            getReactionsHandler env db req =
              (HTTPError StatusNotFound ''failed to get reactions'', Some (Rollback t1)) \<and>
            status (Rollback t1) = RolledBack \<and> rows (Rollback t1) = db \<and>
            pending (Rollback t1) = [] \<and>
            trace (Rollback t1) = [EvQuery query [lid], EvRollback]) \<and>
         (\<forall>reactionModels t1 e t2.
            selectReactions env t0 query lid = (Inr reactionModels, t1) \<and>
            fillReactionResponse env t1 reactionModels = (Inl e, t2) \<longrightarrow>
            getReactionsHandler env db req =
              (HTTPError StatusInternalServerError (''failed to fill reaction: '' @ errorMsg e),
               Some (Rollback t2)) \<and>
            status (Rollback t2) = RolledBack \<and> rows (Rollback t2) = db \<and>
            pending (Rollback t2) = [] \<and>
            filter closing (trace (Rollback t2)) = [EvRollback])"
proof -
  have t0: "rows t0 = db" "pending t0 = []" "status t0 = Active" "trace t0 = []"
    using assms(3) by (simp_all add: BeginTxx_Inr)
  have h: "getReactionsHandler env db req =
      (fst (getReactionsTx env t0 req lid), Some (Rollback (snd (getReactionsTx env t0 req lid))))"
    using assms(1-3) by (rule getReactionsHandler_begun)
  have a: "getReactionsHandler env db req =
              (HTTPError StatusNotFound ''failed to get reactions'', Some (Rollback t1)) \<and>
            status (Rollback t1) = RolledBack \<and> rows (Rollback t1) = db \<and>
            pending (Rollback t1) = [] \<and>
            trace (Rollback t1) = [EvQuery query [lid], EvRollback]"
    if s: "selectReactions env t0 query lid = (Inl e, t1)" for e t1
  proof -
    from selectReactions_frame [OF s] t0
    have f: "rows t1 = db" "status t1 = Active" "trace t1 = [EvQuery query [lid]]"
      by simp_all
    have "getReactionsTx env t0 req lid = (HTTPError StatusNotFound ''failed to get reactions'', t1)"
      by (simp add: getReactionsTx_def assms(4) s)
    with h f show ?thesis
      by (simp add: Rollback_def)
  qed
  have b: "getReactionsHandler env db req =
              (HTTPError StatusInternalServerError (''failed to fill reaction: '' @ errorMsg e),
               Some (Rollback t2)) \<and>
            status (Rollback t2) = RolledBack \<and> rows (Rollback t2) = db \<and>
            pending (Rollback t2) = [] \<and>
            filter closing (trace (Rollback t2)) = [EvRollback]"
    if s: "selectReactions env t0 query lid = (Inr ms, t1)"
      and f: "fillReactionResponse env t1 ms = (Inl e, t2)" for ms t1 e t2
  proof -
    from selectReactions_frame [OF s] t0
    have f1: "rows t1 = db" "status t1 = Active" "trace t1 = [EvQuery query [lid]]"
      by simp_all
    from fillReactionResponse_frame [OF f] f1
    have f2: "rows t2 = db" "status t2 = Active"
      by simp_all
    have "filter closing (trace (snd (fillReactionResponse env t1 ms))) = filter closing (trace t1)"
      by (rule fillReactionResponse_closing)
    with f f1 have f3: "filter closing (trace t2) = []"
      by simp
    have "getReactionsTx env t0 req lid =
        (HTTPError StatusInternalServerError (''failed to fill reaction: '' @ errorMsg e), t2)"
      by (simp add: getReactionsTx_def assms(4) s f)
    with h f2 f3 show ?thesis
      by (simp add: Rollback_def)
  qed
  from a b show ?thesis by blast
qed


lemma fails_as_pair: "isl (fst p) \<Longrightarrow> \<exists>e t. p = (Inl e, t)"
  by (cases p; cases "fst p") auto

theorem getReactionsHandler_store_failure_witness:
  "(\<exists>t. getReactionsHandler exEnvFactQueryFails exDb (exReq []) =
          (HTTPError StatusNotFound ''failed to get reactions'', Some t) \<and>
        status t = RolledBack \<and> rows t = exDb) \<and>
   (\<exists>t. getReactionsHandler exEnvLivestreamQueryFails exDb (exReq []) =
          (HTTPError StatusInternalServerError ''failed to fill reaction: connection lost'', Some t) \<and>
        status t = RolledBack \<and> rows t = exDb)"
proof -
  have v: "verifyUserSession (exReq []) = None"
    by (simp add: exReq_def)
  have a: "Atoi (livestream_id (exReq [])) = Some 42"
    by code_simp
  have q: "buildQuery (exReq []) = Some reactionsQuery"
    by (simp add: buildQuery_def exReq_def)
  have b1: "BeginTxx exEnvFactQueryFails exDb = Inr exTx"
    by (simp add: BeginTxx_def exEnvFactQueryFails_def exEnv_def exTx_def)
  have b2: "BeginTxx exEnvLivestreamQueryFails exDb = Inr exTx"
    by (simp add: BeginTxx_def exEnvLivestreamQueryFails_def exEnv_def exTx_def)
  have "isl (fst (selectReactions exEnvFactQueryFails exTx reactionsQuery 42))"
    by code_simp
  then obtain e1 t1 where s1: "selectReactions exEnvFactQueryFails exTx reactionsQuery 42 = (Inl e1, t1)"
    using fails_as_pair by blast
  from getReactionsHandler_store_failure [OF v a b1 q] s1
  have first: "getReactionsHandler exEnvFactQueryFails exDb (exReq []) =
          (HTTPError StatusNotFound ''failed to get reactions'', Some (Rollback t1)) \<and>
        status (Rollback t1) = RolledBack \<and> rows (Rollback t1) = exDb"
    by blast
  have "isl (fst (selectReactions exEnvLivestreamQueryFails exTx reactionsQuery 42)) = False"
    by code_simp
  then obtain ms t2 where s2: "selectReactions exEnvLivestreamQueryFails exTx reactionsQuery 42 = (Inr ms, t2)"
    using succeeds_as_pair by blast
  have "isl (fst (fillReactionResponse exEnvLivestreamQueryFails
          (snd (selectReactions exEnvLivestreamQueryFails exTx reactionsQuery 42))
          (projr (fst (selectReactions exEnvLivestreamQueryFails exTx reactionsQuery 42)))))"
    by code_simp
  then have "isl (fst (fillReactionResponse exEnvLivestreamQueryFails t2 ms))"
    by (simp add: s2)
  then obtain e2 t3 where f2: "fillReactionResponse exEnvLivestreamQueryFails t2 ms = (Inl e2, t3)"
    using fails_as_pair by blast
  have "projl (fst (fillReactionResponse exEnvLivestreamQueryFails
          (snd (selectReactions exEnvLivestreamQueryFails exTx reactionsQuery 42))
          (projr (fst (selectReactions exEnvLivestreamQueryFails exTx reactionsQuery 42))))) =
        Error ''connection lost''"
    by code_simp
  then have e2: "e2 = Error ''connection lost''"
    by (simp add: s2 f2)
  from getReactionsHandler_store_failure [OF v a b2 q] s2 f2
  have "getReactionsHandler exEnvLivestreamQueryFails exDb (exReq []) =
          (HTTPError StatusInternalServerError (''failed to fill reaction: '' @ errorMsg e2),
           Some (Rollback t3)) \<and>
        status (Rollback t3) = RolledBack \<and> rows (Rollback t3) = exDb"
    by blast
  with e2 have second: "getReactionsHandler exEnvLivestreamQueryFails exDb (exReq []) =
          (HTTPError StatusInternalServerError ''failed to fill reaction: connection lost'',
           Some (Rollback t3)) \<and>
        status (Rollback t3) = RolledBack \<and> rows (Rollback t3) = exDb"
    by simp
  from first second show ?thesis by blast
qed

section \<open>The transaction of each handler\<close>

lemma Commit_cases:
  assumes "status t = Active" and "Commit env t = (r, t')"
  shows "(r = None \<and> status t' = Committed \<and> rows t' = rows t @ pending t \<and> pending t' = [] \<and>
            trace t' = trace t @ [EvCommit]) \<or>
         (r \<noteq> None \<and> status t' = CommitFailed \<and> rows t' = rows t \<and> pending t' = [] \<and>
            trace t' = trace t @ [EvCommit]) \<or>
         (r \<noteq> None \<and> t' = t)"
  using assms by (auto simp: Commit_def split: commitOutcome.splits)

text \<open>What the part of getReactionsHandler inside the transaction leaves behind.\<close>

lemma getReactionsTx_outcome:
  assumes "status t0 = Active" and "pending t0 = []" and "filter closing (trace t0) = []"
      and "getReactionsTx env t0 req lid = (r, t')"
  shows "rows t' = rows t0 \<and> pending t' = [] \<and>
         ((status t' = Active \<and> filter closing (trace t') = [] \<and> (\<forall>c rs. r \<noteq> JSON c rs)) \<or>
          (status t' = CommitFailed \<and> filter closing (trace t') = [EvCommit] \<and>
             last (trace t') = EvCommit \<and> (\<forall>c rs. r \<noteq> JSON c rs)) \<or>
          (status t' = Committed \<and> filter closing (trace t') = [EvCommit] \<and>
             last (trace t') = EvCommit \<and> (\<exists>rs. r = JSON StatusOK rs)))"
proof (cases "buildQuery req")
  case None
  with assms show ?thesis
    by (auto simp: getReactionsTx_def)
next
  case (Some query)
  obtain r1 t1 where s: "selectReactions env t0 query lid = (r1, t1)"
    by (cases "selectReactions env t0 query lid")
  from selectReactions_frame [OF s] assms(1-3)
  have f1: "rows t1 = rows t0" "pending t1 = []" "status t1 = Active" "filter closing (trace t1) = []"
    by simp_all
  show ?thesis
  proof (cases r1)
    case (Inl e)
    with assms(4) Some s f1 show ?thesis
      by (auto simp: getReactionsTx_def)
  next
    case (Inr ms)
    obtain r2 t2 where f: "fillReactionResponse env t1 ms = (r2, t2)"
      by (cases "fillReactionResponse env t1 ms")
    from fillReactionResponse_frame [OF f] fillReactionResponse_closing [of env t1 ms] f f1
    have f2: "rows t2 = rows t0" "pending t2 = []" "status t2 = Active" "filter closing (trace t2) = []"
      by simp_all
    show ?thesis
    proof (cases r2)
      case (Inl e)
      with assms(4) Some s Inr f f2 show ?thesis
        by (auto simp: getReactionsTx_def)
    next
      case r2: (Inr rs)
      obtain r3 t3 where c: "Commit env t2 = (r3, t3)"
        by (cases "Commit env t2")
      from Commit_cases [OF f2(3) c] f2
      have "(r3 = None \<and> status t3 = Committed \<and> rows t3 = rows t0 \<and> pending t3 = [] \<and>
               filter closing (trace t3) = [EvCommit] \<and> last (trace t3) = EvCommit) \<or>
            (r3 \<noteq> None \<and> status t3 = CommitFailed \<and> rows t3 = rows t0 \<and> pending t3 = [] \<and>
               filter closing (trace t3) = [EvCommit] \<and> last (trace t3) = EvCommit) \<or>
            (r3 \<noteq> None \<and> status t3 = Active \<and> rows t3 = rows t0 \<and> pending t3 = [] \<and>
               filter closing (trace t3) = [])"
        by auto
      moreover have "(r, t') = (case r3 of
            Some err \<Rightarrow> (HTTPError StatusInternalServerError (''failed to commit: '' @ errorMsg err), t3)
          | None \<Rightarrow> (JSON StatusOK rs, t3))"
        using assms(4) Some s Inr f r2 c by (simp add: getReactionsTx_def)
      ultimately show ?thesis
        by (auto split: option.splits)
    qed
  qed
qed


lemma NamedExecContext_cases:
  assumes "NamedExecContext env t stmt m = (r, t1)"
  shows "rows t1 = rows t \<and> status t1 = status t \<and> trace t1 = trace t @ [EvExec stmt m] \<and>
         ((\<exists>e. r = Inl e) \<and> pending t1 = pending t \<or>
          (\<exists>x. r = Inr x) \<and> (\<exists>row. pending t1 = pending t @ [row]))"
  using assms by (auto simp: NamedExecContext_def Let_def split: option.splits sum.splits)

text \<open>What the part of postReactionHandler inside the transaction leaves behind.\<close>

lemma postReactionTx_outcome:
  assumes "status t0 = Active" and "pending t0 = []" and "filter closing (trace t0) = []"
      and "postReactionTx env t0 rq uid lid = (r, t')"
  shows "(status t' = Active \<and> rows t' = rows t0 \<and> filter closing (trace t') = [] \<and>
            (\<forall>c x. r \<noteq> JSON c x)) \<or>
         (status t' = CommitFailed \<and> rows t' = rows t0 \<and> pending t' = [] \<and>
            filter closing (trace t') = [EvCommit] \<and> last (trace t') = EvCommit \<and>
            (\<forall>c x. r \<noteq> JSON c x)) \<or>
         (status t' = Committed \<and> (\<exists>row. rows t' = rows t0 @ [row]) \<and> pending t' = [] \<and>
            filter closing (trace t') = [EvCommit] \<and> last (trace t') = EvCommit \<and>
            (\<exists>x. r = JSON StatusCreated x))"
proof (cases rq)
  case None
  with assms show ?thesis
    by (auto simp: postReactionTx_def)
next
  case (Some q)
  let ?m = "\<lparr>ReactionModel.ID = 0, EmojiName = PostReactionRequest.EmojiName q,
      UserID = uid, LivestreamID = lid, CreatedAt = timeNowUnix env\<rparr>"
  obtain r1 t1 where x: "NamedExecContext env t0 insertStmt ?m = (r1, t1)"
    by (cases "NamedExecContext env t0 insertStmt ?m")
  from NamedExecContext_cases [OF x] assms(1-3)
  have f1: "rows t1 = rows t0" "status t1 = Active" "filter closing (trace t1) = []"
    and p1: "(\<exists>e. r1 = Inl e) \<and> pending t1 = [] \<or>
             (\<exists>y. r1 = Inr y) \<and> (\<exists>row. pending t1 = [row])"
    by auto
  have "postReactionTx env t0 (Some q) uid lid =
      (case r1 of
         Inl err \<Rightarrow>
           (HTTPError StatusInternalServerError (''failed to insert reaction: '' @ errorMsg err), t1)
       | Inr (Inl err) \<Rightarrow>
           (HTTPError StatusInternalServerError
              (''failed to get last inserted reaction id: '' @ errorMsg err), t1)
       | Inr (Inr reactionID) \<Rightarrow>
           (case fillReactionResponse env t1 [?m\<lparr>ReactionModel.ID := reactionID\<rparr>] of
              (Inl err, t2) \<Rightarrow>
                (HTTPError StatusInternalServerError (''failed to fill reaction: '' @ errorMsg err), t2)
            | (Inr reactions, t2) \<Rightarrow>
                (case Commit env t2 of
                   (Some err, t3) \<Rightarrow>
                     (HTTPError StatusInternalServerError (''failed to commit: '' @ errorMsg err), t3)
                 | (None, t3) \<Rightarrow>
                     (case reactions of
                        [] \<Rightarrow> (Panic ''index out of range [0] with length 0'', t3)
                      | reaction # _ \<Rightarrow> (JSON StatusCreated reaction, t3)))))"
    using x by (simp add: postReactionTx_def Let_def)
  with assms(4) Some have unfold: "(r, t') =
      (case r1 of
         Inl err \<Rightarrow>
           (HTTPError StatusInternalServerError (''failed to insert reaction: '' @ errorMsg err), t1)
       | Inr (Inl err) \<Rightarrow>
           (HTTPError StatusInternalServerError
              (''failed to get last inserted reaction id: '' @ errorMsg err), t1)
       | Inr (Inr reactionID) \<Rightarrow>
           (case fillReactionResponse env t1 [?m\<lparr>ReactionModel.ID := reactionID\<rparr>] of
              (Inl err, t2) \<Rightarrow>
                (HTTPError StatusInternalServerError (''failed to fill reaction: '' @ errorMsg err), t2)
            | (Inr reactions, t2) \<Rightarrow>
                (case Commit env t2 of
                   (Some err, t3) \<Rightarrow>
                     (HTTPError StatusInternalServerError (''failed to commit: '' @ errorMsg err), t3)
                 | (None, t3) \<Rightarrow>
                     (case reactions of
                        [] \<Rightarrow> (Panic ''index out of range [0] with length 0'', t3)
                      | reaction # _ \<Rightarrow> (JSON StatusCreated reaction, t3)))))"
    by simp
  show ?thesis
  proof (cases r1)
    case (Inl e)
    with unfold f1 show ?thesis by auto
  next
    case (Inr y)
    with p1 obtain row where p: "pending t1 = [row]"
      by auto
    show ?thesis
    proof (cases y)
      case (Inl e)
      with unfold Inr f1 show ?thesis by auto
    next
      case y: (Inr reactionID)
      obtain r2 t2 where f: "fillReactionResponse env t1 [?m\<lparr>ReactionModel.ID := reactionID\<rparr>] = (r2, t2)"
        by (cases "fillReactionResponse env t1 [?m\<lparr>ReactionModel.ID := reactionID\<rparr>]")
      from fillReactionResponse_frame [OF f]
        fillReactionResponse_closing [of env t1 "[?m\<lparr>ReactionModel.ID := reactionID\<rparr>]"] f f1 p
      have f2: "rows t2 = rows t0" "pending t2 = [row]"
        "status t2 = Active" "filter closing (trace t2) = []"
        by simp_all
      show ?thesis
      proof (cases r2)
        case (Inl e)
        with unfold Inr y f f2 show ?thesis by auto
      next
        case r2: (Inr reactions)
        from f r2 have len: "length reactions = 1"
          by (auto simp: fillReactionResponse_Inr length_assemble)
        then obtain reaction where rs: "reactions = [reaction]"
          by (cases reactions) auto
        obtain r3 t3 where c: "Commit env t2 = (r3, t3)"
          by (cases "Commit env t2")
        from Commit_cases [OF f2(3) c] f2
        have "(r3 = None \<and> status t3 = Committed \<and>
                 rows t3 = rows t0 @ [row] \<and> pending t3 = [] \<and>
                 filter closing (trace t3) = [EvCommit] \<and> last (trace t3) = EvCommit) \<or>
              (r3 \<noteq> None \<and> status t3 = CommitFailed \<and> rows t3 = rows t0 \<and> pending t3 = [] \<and>
                 filter closing (trace t3) = [EvCommit] \<and> last (trace t3) = EvCommit) \<or>
              (r3 \<noteq> None \<and> status t3 = Active \<and> rows t3 = rows t0 \<and>
                 filter closing (trace t3) = [])"
          by auto
        moreover have "(r, t') = (case r3 of
              Some err \<Rightarrow> (HTTPError StatusInternalServerError (''failed to commit: '' @ errorMsg err), t3)
            | None \<Rightarrow> (JSON StatusCreated reaction, t3))"
          using unfold Inr y f r2 c rs by (simp split: option.splits)
        ultimately show ?thesis
          by (auto split: option.splits)
      qed
    qed
  qed
qed


lemma postReactionHandler_begun:
  assumes "Atoi (livestream_id req) = Some lid" and "verifyUserSession req = None"
      and "sessionUserID req = Some uid" and "body req = Inr rq" and "BeginTxx env db = Inr t0"
  shows "postReactionHandler env db req =
           (fst (postReactionTx env t0 rq uid lid),
            Some (Rollback (snd (postReactionTx env t0 rq uid lid))))"
  using assms by (simp add: postReactionHandler_def split: prod.splits)

lemma postReactionHandler_no_tx:
  "snd (postReactionHandler env db req) = None \<or>
   (\<exists>lid uid rq. Atoi (livestream_id req) = Some lid \<and> verifyUserSession req = None \<and>
      sessionUserID req = Some uid \<and> body req = Inr rq \<and> beginTxxErr env = None)"
  by (auto simp: postReactionHandler_def BeginTxx_def split: option.splits prod.splits sum.splits)

lemma getReactionsHandler_closed:
  assumes "getReactionsHandler env db req = (r, Some t)"
  shows "status t \<noteq> Active \<and> pending t = [] \<and> filter closing (trace t) = [last (trace t)] \<and>
         (status t = Committed \<longleftrightarrow> (\<exists>rs. r = JSON StatusOK rs)) \<and>
         (status t = Committed \<longrightarrow> last (trace t) = EvCommit) \<and>
         (status t = RolledBack \<longleftrightarrow> last (trace t) = EvRollback) \<and>
         rows t = db"
proof -
  from assms getReactionsHandler_no_tx [of env db req]
  obtain lid where reach: "verifyUserSession req = None" "Atoi (livestream_id req) = Some lid"
      "beginTxxErr env = None"
    by auto
  let ?t0 = "\<lparr>rows = db, pending = [], status = Active, trace = []\<rparr>"
  have b: "BeginTxx env db = Inr ?t0"
    using reach(3) by (simp add: BeginTxx_Inr)
  obtain r' t' where x: "getReactionsTx env ?t0 req lid = (r', t')"
    by (cases "getReactionsTx env ?t0 req lid")
  from getReactionsHandler_begun [OF reach(1,2) b] x assms
  have fin: "r = r'" "t = Rollback t'"
    by simp_all
  from getReactionsTx_outcome [OF _ _ _ x]
  have "rows t' = db \<and> pending t' = [] \<and>
         ((status t' = Active \<and> filter closing (trace t') = [] \<and> (\<forall>c rs. r' \<noteq> JSON c rs)) \<or>
          (status t' = CommitFailed \<and> filter closing (trace t') = [EvCommit] \<and>
             last (trace t') = EvCommit \<and> (\<forall>c rs. r' \<noteq> JSON c rs)) \<or>
          (status t' = Committed \<and> filter closing (trace t') = [EvCommit] \<and>
             last (trace t') = EvCommit \<and> (\<exists>rs. r' = JSON StatusOK rs)))"
    by simp
  with fin show ?thesis
    by (auto simp: Rollback_def)
qed

lemma postReactionHandler_closed:
  assumes "postReactionHandler env db req = (r, Some t)"
  shows "status t \<noteq> Active \<and> pending t = [] \<and> filter closing (trace t) = [last (trace t)] \<and>
         (status t = Committed \<longleftrightarrow> (\<exists>x. r = JSON StatusCreated x)) \<and>
         (status t = Committed \<longrightarrow> last (trace t) = EvCommit \<and> (\<exists>row. rows t = db @ [row])) \<and>
         (status t = RolledBack \<longleftrightarrow> last (trace t) = EvRollback) \<and>
         (status t \<noteq> Committed \<longrightarrow> rows t = db)"
proof -
  from assms postReactionHandler_no_tx [of env db req]
  obtain lid uid rq where reach: "Atoi (livestream_id req) = Some lid" "verifyUserSession req = None"
      "sessionUserID req = Some uid" "body req = Inr rq" "beginTxxErr env = None"
    by auto
  let ?t0 = "\<lparr>rows = db, pending = [], status = Active, trace = []\<rparr>"
  have b: "BeginTxx env db = Inr ?t0"
    using reach(5) by (simp add: BeginTxx_Inr)
  obtain r' t' where x: "postReactionTx env ?t0 rq uid lid = (r', t')"
    by (cases "postReactionTx env ?t0 rq uid lid")
  from postReactionHandler_begun [OF reach(1-4) b] x assms
  have fin: "r = r'" "t = Rollback t'"
    by simp_all
  from postReactionTx_outcome [OF _ _ _ x]
  have "(status t' = Active \<and> rows t' = db \<and> filter closing (trace t') = [] \<and>
            (\<forall>c x. r' \<noteq> JSON c x)) \<or>
         (status t' = CommitFailed \<and> rows t' = db \<and> pending t' = [] \<and>
            filter closing (trace t') = [EvCommit] \<and> last (trace t') = EvCommit \<and>
            (\<forall>c x. r' \<noteq> JSON c x)) \<or>
         (status t' = Committed \<and> (\<exists>row. rows t' = db @ [row]) \<and> pending t' = [] \<and>
            filter closing (trace t') = [EvCommit] \<and> last (trace t') = EvCommit \<and>
            (\<exists>x. r' = JSON StatusCreated x))"
    by simp
  with fin show ?thesis
    by (auto simp: Rollback_def)
qed

text \<open>
  C7. In \<open>getReactionsHandler\<close> and in \<open>postReactionHandler\<close>, once \<open>BeginTxx\<close> has
  succeeded the handler leaves a transaction behind on every path, panics included, and
  that transaction is closed: exactly one closing statement was sent, and it is the last
  statement of the trace. It is \<open>COMMIT\<close> when \<open>tx.Commit()\<close> was reached, and then the
  deferred rollback did nothing; otherwise it is the deferred \<open>ROLLBACK\<close>. The
  transaction is committed exactly when the handler answers with its JSON response.
  In every other case, a failed lookup in \<open>fillReactionResponse\<close> among them, the table
  is as it was before the request; a committed \<open>postReactionHandler\<close> has added one row.
\<close>

theorem deferred_rollback_closes_transaction:
  "(verifyUserSession req = None \<and> Atoi (livestream_id req) \<noteq> None \<and> beginTxxErr env = None \<longrightarrow>
      snd (getReactionsHandler env db req) \<noteq> None) \<and>
   (\<forall>t. snd (getReactionsHandler env db req) = Some t \<longrightarrow>
      status t \<noteq> Active \<and> pending t = [] \<and> filter closing (trace t) = [last (trace t)] \<and>
      (status t = Committed \<longleftrightarrow> (\<exists>rs. fst (getReactionsHandler env db req) = JSON StatusOK rs)) \<and>
      (status t = Committed \<longrightarrow> last (trace t) = EvCommit) \<and>
      (status t = RolledBack \<longleftrightarrow> last (trace t) = EvRollback) \<and>
      rows t = db) \<and>
   (Atoi (livestream_id req) \<noteq> None \<and> verifyUserSession req = None \<and> sessionUserID req \<noteq> None \<and>
    \<not> isl (body req) \<and> beginTxxErr env = None \<longrightarrow>
      snd (postReactionHandler env db req) \<noteq> None) \<and>
   (\<forall>t. snd (postReactionHandler env db req) = Some t \<longrightarrow>
      status t \<noteq> Active \<and> pending t = [] \<and> filter closing (trace t) = [last (trace t)] \<and>
      (status t = Committed \<longleftrightarrow> (\<exists>x. fst (postReactionHandler env db req) = JSON StatusCreated x)) \<and>
      (status t = Committed \<longrightarrow> last (trace t) = EvCommit \<and> (\<exists>row. rows t = db @ [row])) \<and>
      (status t = RolledBack \<longleftrightarrow> last (trace t) = EvRollback) \<and>
      (status t \<noteq> Committed \<longrightarrow> rows t = db))"
proof -
  have g1: "verifyUserSession req = None \<and> Atoi (livestream_id req) \<noteq> None \<and> beginTxxErr env = None \<longrightarrow>
      snd (getReactionsHandler env db req) \<noteq> None"
    by (auto simp: getReactionsHandler_def BeginTxx_def split: prod.splits)
  have p1: "Atoi (livestream_id req) \<noteq> None \<and> verifyUserSession req = None \<and> sessionUserID req \<noteq> None \<and>
    \<not> isl (body req) \<and> beginTxxErr env = None \<longrightarrow>
      snd (postReactionHandler env db req) \<noteq> None"
    by (auto simp: postReactionHandler_def BeginTxx_def split: prod.splits sum.splits)
  have g2: "\<forall>t. snd (getReactionsHandler env db req) = Some t \<longrightarrow>
      status t \<noteq> Active \<and> pending t = [] \<and> filter closing (trace t) = [last (trace t)] \<and>
      (status t = Committed \<longleftrightarrow> (\<exists>rs. fst (getReactionsHandler env db req) = JSON StatusOK rs)) \<and>
      (status t = Committed \<longrightarrow> last (trace t) = EvCommit) \<and>
      (status t = RolledBack \<longleftrightarrow> last (trace t) = EvRollback) \<and>
      rows t = db"
  proof (intro allI impI)
    fix t assume "snd (getReactionsHandler env db req) = Some t"
    then have "getReactionsHandler env db req = (fst (getReactionsHandler env db req), Some t)"
      by (metis prod.collapse)
    from getReactionsHandler_closed [OF this]
    show "status t \<noteq> Active \<and> pending t = [] \<and> filter closing (trace t) = [last (trace t)] \<and>
      (status t = Committed \<longleftrightarrow> (\<exists>rs. fst (getReactionsHandler env db req) = JSON StatusOK rs)) \<and>
      (status t = Committed \<longrightarrow> last (trace t) = EvCommit) \<and>
      (status t = RolledBack \<longleftrightarrow> last (trace t) = EvRollback) \<and>
      rows t = db" .
  qed
  have p2: "\<forall>t. snd (postReactionHandler env db req) = Some t \<longrightarrow>
      status t \<noteq> Active \<and> pending t = [] \<and> filter closing (trace t) = [last (trace t)] \<and>
      (status t = Committed \<longleftrightarrow> (\<exists>x. fst (postReactionHandler env db req) = JSON StatusCreated x)) \<and>
      (status t = Committed \<longrightarrow> last (trace t) = EvCommit \<and> (\<exists>row. rows t = db @ [row])) \<and>
      (status t = RolledBack \<longleftrightarrow> last (trace t) = EvRollback) \<and>
      (status t \<noteq> Committed \<longrightarrow> rows t = db)"
  proof (intro allI impI)
    fix t assume "snd (postReactionHandler env db req) = Some t"
    then have "postReactionHandler env db req = (fst (postReactionHandler env db req), Some t)"
      by (metis prod.collapse)
    from postReactionHandler_closed [OF this]
    show "status t \<noteq> Active \<and> pending t = [] \<and> filter closing (trace t) = [last (trace t)] \<and>
      (status t = Committed \<longleftrightarrow> (\<exists>x. fst (postReactionHandler env db req) = JSON StatusCreated x)) \<and>
      (status t = Committed \<longrightarrow> last (trace t) = EvCommit \<and> (\<exists>row. rows t = db @ [row])) \<and>
      (status t = RolledBack \<longleftrightarrow> last (trace t) = EvRollback) \<and>
      (status t \<noteq> Committed \<longrightarrow> rows t = db)" .
  qed
  from g1 g2 p1 p2 show ?thesis by blast
qed


theorem deferred_rollback_closes_transaction_witness:
  "(\<exists>t. snd (getReactionsHandler exEnv exDb (exReq [])) = Some t \<and>
        status t = Committed \<and> filter closing (trace t) = [EvCommit] \<and> rows t = exDb) \<and>
   (\<exists>t. snd (postReactionHandler exEnvLivestreamQueryFails exDb (exReq [])) = Some t \<and>
        status t = RolledBack \<and> filter closing (trace t) = [EvRollback] \<and> rows t = exDb \<and>
        pending t = [])"
proof -
  note on_get = deferred_rollback_closes_transaction [of "exReq []" exEnv exDb]
  note on_post = deferred_rollback_closes_transaction [of "exReq []" exEnvLivestreamQueryFails exDb]
  have "verifyUserSession (exReq []) = None \<and> Atoi (livestream_id (exReq [])) \<noteq> None \<and>
        beginTxxErr exEnv = None"
    by code_simp
  with on_get obtain t where t: "snd (getReactionsHandler exEnv exDb (exReq [])) = Some t"
    by blast
  have "case fst (getReactionsHandler exEnv exDb (exReq [])) of
          JSON c rs \<Rightarrow> c = StatusOK | _ \<Rightarrow> False"
    by code_simp
  then have "\<exists>rs. fst (getReactionsHandler exEnv exDb (exReq [])) = JSON StatusOK rs"
    by (cases "fst (getReactionsHandler exEnv exDb (exReq []))") simp_all
  with on_get t have "status t = Committed \<and> filter closing (trace t) = [EvCommit] \<and> rows t = exDb"
    by simp
  with t have first: "\<exists>t. snd (getReactionsHandler exEnv exDb (exReq [])) = Some t \<and>
        status t = Committed \<and> filter closing (trace t) = [EvCommit] \<and> rows t = exDb"
    by blast
  have "Atoi (livestream_id (exReq [])) \<noteq> None \<and> verifyUserSession (exReq []) = None \<and>
        sessionUserID (exReq []) \<noteq> None \<and> \<not> isl (body (exReq [])) \<and>
        beginTxxErr exEnvLivestreamQueryFails = None"
    by code_simp
  with on_post obtain u where u: "snd (postReactionHandler exEnvLivestreamQueryFails exDb (exReq [])) = Some u"
    by blast
  have "map_option (\<lambda>t. last (trace t))
          (snd (postReactionHandler exEnvLivestreamQueryFails exDb (exReq []))) = Some EvRollback"
    by code_simp
  with u have "last (trace u) = EvRollback"
    by simp
  with on_post u have "status u = RolledBack \<and> filter closing (trace u) = [EvRollback] \<and>
      rows u = exDb \<and> pending u = []"
    by simp
  with u have "\<exists>t. snd (postReactionHandler exEnvLivestreamQueryFails exDb (exReq [])) = Some t \<and>
        status t = RolledBack \<and> filter closing (trace t) = [EvRollback] \<and> rows t = exDb \<and>
        pending t = []"
    by blast
  with first show ?thesis by blast
qed

section \<open>The store on the statements of the handlers\<close>

declare showNat.simps [simp del]

lemma digitVal_digitChar: "d < 10 \<Longrightarrow> digitVal (digitChar d) = Some (int d)"
  by (simp add: digitVal_def digitChar_def Let_def)

lemma parseDigits_snoc:
  "parseDigits a (s @ [ch]) =
     (case parseDigits a s of
        None \<Rightarrow> None
      | Some v \<Rightarrow> (case digitVal ch of None \<Rightarrow> None | Some d \<Rightarrow> Some (v * 10 + d)))"
  by (induction s arbitrary: a) (auto split: option.splits)

lemma parseDigits_showNat: "parseDigits 0 (showNat n) = Some (int n)"
proof (induction n rule: showNat.induct)
  case (1 n)
  show ?case
  proof (cases "n < 10")
    case True
    then show ?thesis
      by (simp add: showNat.simps [of n] digitVal_digitChar)
  next
    case False
    with 1 have "parseDigits 0 (showNat (n div 10)) = Some (int (n div 10))"
      by simp
    moreover have "digitVal (digitChar (n mod 10)) = Some (int (n mod 10))"
      by (simp add: digitVal_digitChar)
    moreover have "int (n div 10) * 10 + int (n mod 10) = int n"
      by presburger
    ultimately show ?thesis
      using False by (simp add: showNat.simps [of n] parseDigits_snoc)
  qed
qed

lemma showNat_not_Nil: "showNat n \<noteq> []"
  by (simp add: showNat.simps [of n])

lemma parseDigits_Some_digits:
  "parseDigits a s = Some v \<Longrightarrow> c \<in> set s \<Longrightarrow> digitVal c \<noteq> None"
  by (induction s arbitrary: a) (auto split: option.splits)

lemma isSeparator_no_digit: "isSeparator c \<Longrightarrow> digitVal c = None"
  by (auto simp: isSeparator_def digitVal_def)

lemma showNat_no_separator: "c \<in> set (showNat n) \<Longrightarrow> \<not> isSeparator c"
  using parseDigits_Some_digits [OF parseDigits_showNat] isSeparator_no_digit by blast

lemma tokensAcc_separator:
  "isSeparator c \<Longrightarrow> tokensAcc w (xs @ c # ys) = tokensAcc w xs @ tokensAcc [] ys"
  by (induction xs arbitrary: w) auto

lemma tokensAcc_word:
  "\<forall>c\<in>set d. \<not> isSeparator c \<Longrightarrow> w @ d \<noteq> [] \<Longrightarrow> tokensAcc w d = [w @ d]"
  by (induction d arbitrary: w) auto

lemma tokens_reactionsQuery:
  "tokens reactionsQuery =
     [''SELECT'', ''*'', ''FROM'', ''reactions'', ''WHERE'', ''livestream_id'', ''='', ''?'',
      ''ORDER'', ''BY'', ''created_at'', ''DESC'']"
  by code_simp

lemma tokens_limit:
  assumes "\<forall>c\<in>set d. \<not> isSeparator c" and "d \<noteq> []"
  shows "tokens (reactionsQuery @ '' LIMIT '' @ d) = tokens reactionsQuery @ [''LIMIT'', d]"
proof -
  have sp: "isSeparator CHR '' ''"
    by (simp add: isSeparator_def)
  have "reactionsQuery @ '' LIMIT '' @ d = (reactionsQuery @ CHR '' '' # ''LIMIT'') @ CHR '' '' # d"
    by simp
  then have "tokens (reactionsQuery @ '' LIMIT '' @ d) =
      tokensAcc [] (reactionsQuery @ CHR '' '' # ''LIMIT'') @ tokensAcc [] d"
    by (simp only: tokens_def tokensAcc_separator [OF sp])
  moreover have "tokensAcc [] (reactionsQuery @ CHR '' '' # ''LIMIT'') =
      tokens reactionsQuery @ tokensAcc [] ''LIMIT''"
    by (simp only: tokens_def tokensAcc_separator [OF sp])
  moreover have "tokensAcc [] ''LIMIT'' = [''LIMIT'']"
    by (simp add: isSeparator_def)
  moreover have "tokensAcc [] d = [d]"
    using tokensAcc_word [OF assms(1), of "[]"] assms(2) by simp
  ultimately show ?thesis
    by simp
qed

lemma intColumn_simps:
  "intColumn ''livestream_id'' = Some ReactionModel.LivestreamID"
  "intColumn ''created_at'' = Some ReactionModel.CreatedAt"
  "intColumn ''user_id'' = Some ReactionModel.UserID"
  by (simp_all add: intColumn_def)

lemma runReactionsQuery_no_limit:
  "runReactionsQuery table reactionsQuery arg = Inr (orderedFacts table arg)"
  by (simp add: runReactionsQuery_def tokens_reactionsQuery parseSelect_def parseWhere_def
      parseOrderBy_def parseLimit_def runSelect_def intColumn_simps orderedFacts_def)

lemma parseSelect_limit:
  assumes "\<forall>c\<in>set d. \<not> isSeparator c" and "d \<noteq> []"
  shows "parseSelect (tokens (reactionsQuery @ '' LIMIT '' @ d)) =
     (case parseDigits 0 d of
        None \<Rightarrow> None
      | Some k \<Rightarrow>
          Some \<lparr>fromTable = ''reactions'', whereColumn = Some ''livestream_id'',
                orderColumn = Some (''created_at'', True), limitRows = Some (nat k)\<rparr>)"
  unfolding tokens_limit [OF assms] tokens_reactionsQuery
  using assms(2)
  by (simp add: parseSelect_def parseWhere_def parseOrderBy_def parseLimit_def split: option.splits)

lemma runReactionsQuery_words:
  assumes "\<forall>c\<in>set d. \<not> isSeparator c" and "d \<noteq> []"
  shows "runReactionsQuery table (reactionsQuery @ '' LIMIT '' @ d) arg =
     (case parseDigits 0 d of
        None \<Rightarrow> Inl syntaxError
      | Some k \<Rightarrow> Inr (take (nat k) (orderedFacts table arg)))"
  unfolding runReactionsQuery_def parseSelect_limit [OF assms]
  by (simp add: runSelect_def intColumn_simps orderedFacts_def split: option.splits)

lemma runReactionsQuery_limit:
  "runReactionsQuery table (reactionsQuery @ '' LIMIT '' @ showInt n) arg =
     (if 0 \<le> n then Inr (take (nat n) (orderedFacts table arg)) else Inl syntaxError)"
proof (cases "0 \<le> n")
  case True
  then have d: "showInt n = showNat (nat n)"
    by (simp add: showInt_def)
  have "runReactionsQuery table (reactionsQuery @ '' LIMIT '' @ showNat (nat n)) arg =
     (case parseDigits 0 (showNat (nat n)) of
        None \<Rightarrow> Inl syntaxError
      | Some k \<Rightarrow> Inr (take (nat k) (orderedFacts table arg)))"
    by (rule runReactionsQuery_words) (auto simp: showNat_no_separator showNat_not_Nil)
  with True d show ?thesis
    by (simp add: parseDigits_showNat)
next
  case False
  let ?d = "CHR ''-'' # showNat (nat (- n))"
  from False have d: "showInt n = ?d"
    by (simp add: showInt_def)
  have "\<not> isSeparator CHR ''-''"
    by (simp add: isSeparator_def)
  then have "\<forall>c\<in>set ?d. \<not> isSeparator c"
    by (auto simp: showNat_no_separator)
  then have "runReactionsQuery table (reactionsQuery @ '' LIMIT '' @ ?d) arg =
     (case parseDigits 0 ?d of
        None \<Rightarrow> Inl syntaxError
      | Some k \<Rightarrow> Inr (take (nat k) (orderedFacts table arg)))"
    by (rule runReactionsQuery_words) simp
  moreover have "parseDigits 0 ?d = None"
    by (simp add: digitVal_def)
  ultimately show ?thesis
    using False d by simp
qed

lemma tokens_insertStmt:
  "parseInsert (tokens insertStmt) =
     Some (''reactions'',
           [(''user_id'', ''user_id''), (''livestream_id'', ''livestream_id''),
            (''emoji_name'', ''emoji_name''), (''created_at'', ''created_at'')])"
  by code_simp

lemma insertedRow_insertStmt:
  "insertedRow newID insertStmt m =
     Inr \<lparr>ReactionModel.ID = newID, EmojiName = ReactionModel.EmojiName m,
          UserID = ReactionModel.UserID m, LivestreamID = ReactionModel.LivestreamID m,
          CreatedAt = ReactionModel.CreatedAt m\<rparr>"
  by (simp add: insertedRow_def tokens_insertStmt columnValue_def setColumn_def intColumn_def)

section \<open>postReactionHandler: the inserted reaction\<close>

lemma resolveUsers_single:
  "resolveUsers env t [k] = (r, t1) \<Longrightarrow>
     t1 = t\<lparr>trace := trace t @ [EvQuery ''SELECT * FROM users WHERE id IN (?)'' [k]]\<rparr>"
  by (auto simp: resolveUsers_unfold Let_def usersQuery_def split: sum.splits)

lemma resolveLivestreams_single:
  "resolveLivestreams env t [k] = (r, t1) \<Longrightarrow>
     t1 = t\<lparr>trace := trace t @ [EvQuery ''SELECT * FROM livestreams WHERE id IN (?)'' [k]]\<rparr>"
  by (auto simp: resolveLivestreams_unfold Let_def livestreamsQuery_def split: sum.splits)

text \<open>
  C8. When the request is well-formed and neither the store nor the two lookups fail,
  \<open>postReactionHandler\<close> sends one INSERT, the user query and the livestream query for
  the new fact's two keys, and COMMIT, in this order and nothing else: the fact is not
  read back. The store reads the INSERT of line 116 and writes one row to \<open>reactions\<close>,
  with the user ID, livestream ID, emoji name and creation time of the struct under the
  columns the statement names, and the ID it assigns. The lookups run while the
  transaction is still active, with the new row among its uncommitted writes. The
  response has status 201 and carries the assigned ID, the emoji name of the request,
  the creation time that was inserted, and the user and the livestream found under the
  fact's user ID and livestream ID. After the commit the table has exactly one more
  row, the new fact.
\<close>

theorem postReactionHandler_inserts_and_hydrates:
  assumes "Atoi (livestream_id req) = Some lid" and "verifyUserSession req = None"
      and "sessionUserID req = Some uid" and "body req = Inr (Some rq)"
      and "beginTxxErr env = None" and "execInsertErr env = None" and "lastInsertIdErr env = None"
      and "commitResult env = CommitOK"
      and u: "resolveUsers env
                \<lparr>rows = db,
                 pending = [\<lparr>ReactionModel.ID = assignedID env,
                             EmojiName = PostReactionRequest.EmojiName rq, UserID = uid,
                             LivestreamID = lid, CreatedAt = timeNowUnix env\<rparr>],
                 status = Active,
                 trace = [EvExec insertStmt
                            \<lparr>ReactionModel.ID = 0, EmojiName = PostReactionRequest.EmojiName rq,
                             UserID = uid, LivestreamID = lid, CreatedAt = timeNowUnix env\<rparr>]\<rparr>
                [uid] = (Inr um, tU)"
      and l: "resolveLivestreams env tU [lid] = (Inr lm, tL)"
  shows "postReactionHandler env db req =
           (JSON StatusCreated
              \<lparr>Reaction.ID = assignedID env,
               EmojiName = PostReactionRequest.EmojiName rq,
               User = mapIndex (zeroUser env) um uid,
               Livestream = mapIndex (zeroLivestream env) lm lid,
               CreatedAt = timeNowUnix env\<rparr>,
            Some \<lparr>rows = db @ [\<lparr>ReactionModel.ID = assignedID env,
                                 EmojiName = PostReactionRequest.EmojiName rq, UserID = uid,
                                 LivestreamID = lid, CreatedAt = timeNowUnix env\<rparr>],
                  pending = [],
                  status = Committed,
                  trace = [EvExec insertStmt
                             \<lparr>ReactionModel.ID = 0, EmojiName = PostReactionRequest.EmojiName rq,
                              UserID = uid, LivestreamID = lid, CreatedAt = timeNowUnix env\<rparr>,
                           EvQuery ''SELECT * FROM users WHERE id IN (?)'' [uid],
                           EvQuery ''SELECT * FROM livestreams WHERE id IN (?)'' [lid],
                           EvCommit]\<rparr>)"
proof -
  let ?param = "\<lparr>ReactionModel.ID = 0, EmojiName = PostReactionRequest.EmojiName rq,
              UserID = uid, LivestreamID = lid, CreatedAt = timeNowUnix env\<rparr>"
  let ?row = "\<lparr>ReactionModel.ID = assignedID env, EmojiName = PostReactionRequest.EmojiName rq,
              UserID = uid, LivestreamID = lid, CreatedAt = timeNowUnix env\<rparr>"
  let ?begun = "\<lparr>rows = db, pending = [], status = Active, trace = []\<rparr>"
  let ?inserted = "\<lparr>rows = db, pending = [?row], status = Active, trace = [EvExec insertStmt ?param]\<rparr>"
  have ins: "NamedExecContext env ?begun insertStmt ?param = (Inr (Inr (assignedID env)), ?inserted)"
    using assms(6,7) by (simp add: NamedExecContext_def insertedRow_insertStmt)
  from resolveUsers_single [OF u]
  have tU: "tU = \<lparr>rows = db, pending = [?row], status = Active,
      trace = [EvExec insertStmt ?param, EvQuery ''SELECT * FROM users WHERE id IN (?)'' [uid]]\<rparr>"
    by simp
  from resolveLivestreams_single [OF l] tU
  have tL: "tL = \<lparr>rows = db, pending = [?row], status = Active,
      trace = [EvExec insertStmt ?param, EvQuery ''SELECT * FROM users WHERE id IN (?)'' [uid],
               EvQuery ''SELECT * FROM livestreams WHERE id IN (?)'' [lid]]\<rparr>"
    by simp
  have fill: "fillReactionResponse env ?inserted [?row] = (Inr (assemble env um lm [?row]), tL)"
    using u l by (simp add: fillReactionResponse_Inr)
  have com: "Commit env tL =
      (None, \<lparr>rows = db @ [?row], pending = [], status = Committed,
             trace = [EvExec insertStmt ?param, EvQuery ''SELECT * FROM users WHERE id IN (?)'' [uid],
                      EvQuery ''SELECT * FROM livestreams WHERE id IN (?)'' [lid], EvCommit]\<rparr>)"
    using assms(8) by (simp add: Commit_def tL)
  have body: "postReactionTx env ?begun (Some rq) uid lid =
      (JSON StatusCreated
         \<lparr>Reaction.ID = assignedID env,
          EmojiName = PostReactionRequest.EmojiName rq,
          User = mapIndex (zeroUser env) um uid,
          Livestream = mapIndex (zeroLivestream env) lm lid,
          CreatedAt = timeNowUnix env\<rparr>,
       \<lparr>rows = db @ [?row], pending = [], status = Committed,
             trace = [EvExec insertStmt ?param, EvQuery ''SELECT * FROM users WHERE id IN (?)'' [uid],
                      EvQuery ''SELECT * FROM livestreams WHERE id IN (?)'' [lid], EvCommit]\<rparr>)"
    using ins fill com by (simp add: postReactionTx_def Let_def assemble_def)
  have "BeginTxx env db = Inr ?begun"
    using assms(5) by (simp add: BeginTxx_def)
  from postReactionHandler_begun [OF assms(1-4) this] body show ?thesis
    by (simp add: Rollback_def)
qed


theorem postReactionHandler_inserts_and_hydrates_witness:
  "postReactionHandler exEnv exDb (exReq []) =
     (JSON 201
        \<lparr>Reaction.ID = 101, EmojiName = ''fire'', User = (7, ''alice''),
         Livestream = (42, ''stream''), CreatedAt = 1700000000\<rparr>,
      Some \<lparr>rows = exDb @ [exRow 101 7 1700000000], pending = [], status = Committed,
            trace = [EvExec insertStmt (exRow 0 7 1700000000),
                     EvQuery ''SELECT * FROM users WHERE id IN (?)'' [7],
                     EvQuery ''SELECT * FROM livestreams WHERE id IN (?)'' [42],
                     EvCommit]\<rparr>)"
proof -
  let ?rq = "\<lparr>PostReactionRequest.EmojiName = ''fire''\<rparr>"
  let ?inserted =
    "\<lparr>rows = exDb,
      pending = [\<lparr>ReactionModel.ID = assignedID exEnv,
                  EmojiName = PostReactionRequest.EmojiName ?rq, UserID = 7,
                  LivestreamID = 42, CreatedAt = timeNowUnix exEnv\<rparr>],
      status = Active,
      trace = [EvExec insertStmt
                 \<lparr>ReactionModel.ID = 0, EmojiName = PostReactionRequest.EmojiName ?rq,
                  UserID = 7, LivestreamID = 42, CreatedAt = timeNowUnix exEnv\<rparr>]\<rparr>"
  have a: "Atoi (livestream_id (exReq [])) = Some 42"
    by code_simp
  have r: "verifyUserSession (exReq []) = None" "sessionUserID (exReq []) = Some 7"
    "body (exReq []) = Inr (Some ?rq)"
    by (simp_all add: exReq_def)
  have e: "beginTxxErr exEnv = None" "execInsertErr exEnv = None" "lastInsertIdErr exEnv = None"
    "commitResult exEnv = CommitOK"
    by (simp_all add: exEnv_def)
  have "isl (fst (resolveUsers exEnv ?inserted [7])) = False"
    by code_simp
  then obtain um tU where u: "resolveUsers exEnv ?inserted [7] = (Inr um, tU)"
    using succeeds_as_pair by blast
  have "isl (fst (resolveLivestreams exEnv (snd (resolveUsers exEnv ?inserted [7])) [42])) = False"
    by code_simp
  then have "isl (fst (resolveLivestreams exEnv tU [42])) = False"
    using u by simp
  then obtain lm tL where l: "resolveLivestreams exEnv tU [42] = (Inr lm, tL)"
    using succeeds_as_pair by blast
  have "projr (fst (resolveUsers exEnv ?inserted [7])) 7 = Some (7, ''alice'')"
    by code_simp
  then have um: "um 7 = Some (7, ''alice'')"
    using u by simp
  have "projr (fst (resolveLivestreams exEnv (snd (resolveUsers exEnv ?inserted [7])) [42])) 42 =
          Some (42, ''stream'')"
    by code_simp
  then have lm: "lm 42 = Some (42, ''stream'')"
    using u l by simp
  have v: "assignedID exEnv = 101" "timeNowUnix exEnv = 1700000000"
    by (simp_all add: exEnv_def)
  from postReactionHandler_inserts_and_hydrates [OF a r e u l] um lm v show ?thesis
    by (simp add: mapIndex_def exRow_def StatusCreated_def)
qed

section \<open>getReactionsHandler: order and limit of the listed facts\<close>

lemma orderedFacts_descending:
  "sorted_wrt (\<lambda>a b. ReactionModel.CreatedAt b \<le> ReactionModel.CreatedAt a) (orderedFacts table arg)"
proof -
  have "sorted (map (\<lambda>r. - ReactionModel.CreatedAt r) (orderedFacts table arg))"
    by (simp add: orderedFacts_def)
  then show ?thesis
    by (simp add: sorted_wrt_map)
qed

lemma set_orderedFacts:
  "set (orderedFacts table arg) = {r \<in> set table. ReactionModel.LivestreamID r = arg}"
  by (simp add: orderedFacts_def)



lemma getReactionsHandler_JSON:
  assumes "getReactionsHandler env db req = (JSON code reactions, final)"
  shows "\<exists>lid query ms t1 t2.
           Atoi (livestream_id req) = Some lid \<and> buildQuery req = Some query \<and>
           selectReactions env \<lparr>rows = db, pending = [], status = Active, trace = []\<rparr> query lid =
             (Inr ms, t1) \<and>
           fillReactionResponse env t1 ms = (Inr reactions, t2) \<and> code = StatusOK"
  using assms
  by (auto simp: getReactionsHandler_def BeginTxx_def getReactionsTx_def
      split: option.splits prod.splits sum.splits)

lemma selectReactions_Inr:
  "selectReactions env t query arg = (Inr ms, t1) \<Longrightarrow>
     runReactionsQuery (rows t @ pending t) query arg = Inr ms"
  by (auto simp: selectReactions_def Let_def split: option.splits)

lemma getReactionsHandler_listed:
  assumes "getReactionsHandler env db req = (JSON code reactions, final)"
  shows "\<exists>lid facts um lm.
           Atoi (livestream_id req) = Some lid \<and>
           (limit req = [] \<and> facts = orderedFacts db lid \<or>
            (\<exists>n. limit req \<noteq> [] \<and> Atoi (limit req) = Some n \<and> 0 \<le> n \<and>
                 facts = take (nat n) (orderedFacts db lid))) \<and>
           reactions = assemble env um lm facts \<and>
           map Reaction.CreatedAt reactions = map ReactionModel.CreatedAt facts \<and>
           sorted_wrt (\<lambda>a b. b \<le> a) (map Reaction.CreatedAt reactions) \<and>
           sorted_wrt (\<lambda>a b. ReactionModel.CreatedAt b \<le> ReactionModel.CreatedAt a)
             (orderedFacts db lid) \<and>
           set (orderedFacts db lid) = {r \<in> set db. ReactionModel.LivestreamID r = lid}"
proof -
  from getReactionsHandler_JSON [OF assms] obtain lid query ms t1 t2 where
    h: "Atoi (livestream_id req) = Some lid" "buildQuery req = Some query"
       "selectReactions env \<lparr>rows = db, pending = [], status = Active, trace = []\<rparr> query lid =
          (Inr ms, t1)"
       "fillReactionResponse env t1 ms = (Inr reactions, t2)"
    by blast
  from selectReactions_Inr [OF h(3)] have run: "runReactionsQuery db query lid = Inr ms"
    by simp
  have facts: "limit req = [] \<and> ms = orderedFacts db lid \<or>
      (\<exists>n. limit req \<noteq> [] \<and> Atoi (limit req) = Some n \<and> 0 \<le> n \<and>
                 ms = take (nat n) (orderedFacts db lid))"
  proof (cases "limit req = []")
    case True
    with h(2) have "query = reactionsQuery"
      by (simp add: buildQuery_def)
    with run True show ?thesis
      by (simp add: runReactionsQuery_no_limit)
  next
    case False
    with h(2) obtain n where n: "Atoi (limit req) = Some n"
        "query = reactionsQuery @ '' LIMIT '' @ showInt n"
      by (auto simp: buildQuery_def split: option.splits)
    from run n(2) have "(if 0 \<le> n then Inr (take (nat n) (orderedFacts db lid)) else Inl syntaxError) =
        Inr ms"
      by (simp only: runReactionsQuery_limit)
    then have "0 \<le> n \<and> ms = take (nat n) (orderedFacts db lid)"
      by (auto split: if_splits)
    with False n show ?thesis
      by blast
  qed
  from h(4) obtain um lm where a: "reactions = assemble env um lm ms"
    by (auto simp: fillReactionResponse_Inr)
  then have c: "map Reaction.CreatedAt reactions = map ReactionModel.CreatedAt ms"
    by (simp add: assemble_def comp_def)
  have "sorted_wrt (\<lambda>a b. ReactionModel.CreatedAt b \<le> ReactionModel.CreatedAt a) ms"
    using facts orderedFacts_descending [of db lid] by (auto intro: sorted_wrt_take)
  then have "sorted_wrt (\<lambda>a b. b \<le> a) (map ReactionModel.CreatedAt ms)"
    by (simp add: sorted_wrt_map)
  with c have s: "sorted_wrt (\<lambda>a b. b \<le> a) (map Reaction.CreatedAt reactions)"
    by simp
  from h(1) facts a c s orderedFacts_descending [of db lid] set_orderedFacts [of db lid]
  show ?thesis
    by blast
qed

text \<open>
  C9. The store reads the text that \<open>getReactionsHandler\<close> sends: its \<open>WHERE\<close> keeps the
  facts of the livestream and its \<open>ORDER BY created_at DESC\<close> puts the latest creation
  time first, so the answer is \<open>orderedFacts\<close>; the text built for a limit \<open>n \<ge> 0\<close>
  gives the first \<open>n\<close> of them. A successful \<open>getReactionsHandler\<close> answers with the
  responses of exactly these facts, in this order: all facts of the livestream when
  \<open>limit\<close> is absent, the first \<open>n\<close> when \<open>limit\<close> is the integer \<open>n\<close>, which is then
  not negative. The creation times of the responses are in descending order.
\<close>

theorem getReactionsHandler_order_and_limit:
  "runReactionsQuery db reactionsQuery arg = Inr (orderedFacts db arg) \<and>
   (\<forall>n. 0 \<le> n \<longrightarrow>
      runReactionsQuery db (reactionsQuery @ '' LIMIT '' @ showInt n) arg =
        Inr (take (nat n) (orderedFacts db arg))) \<and>
   (\<forall>code reactions final.
      getReactionsHandler env db req = (JSON code reactions, final) \<longrightarrow>
      (\<exists>lid facts um lm.
         Atoi (livestream_id req) = Some lid \<and>
         (limit req = [] \<and> facts = orderedFacts db lid \<or>
          (\<exists>n. limit req \<noteq> [] \<and> Atoi (limit req) = Some n \<and> 0 \<le> n \<and>
               facts = take (nat n) (orderedFacts db lid))) \<and>
         reactions = assemble env um lm facts \<and>
         map Reaction.CreatedAt reactions = map ReactionModel.CreatedAt facts \<and>
         sorted_wrt (\<lambda>a b. b \<le> a) (map Reaction.CreatedAt reactions) \<and>
         sorted_wrt (\<lambda>a b. ReactionModel.CreatedAt b \<le> ReactionModel.CreatedAt a)
           (orderedFacts db lid) \<and>
         set (orderedFacts db lid) = {r \<in> set db. ReactionModel.LivestreamID r = lid}))"
proof (intro conjI allI impI)
  show "runReactionsQuery db reactionsQuery arg = Inr (orderedFacts db arg)"
    by (rule runReactionsQuery_no_limit)
next
  fix n :: int
  assume "0 \<le> n"
  then show "runReactionsQuery db (reactionsQuery @ '' LIMIT '' @ showInt n) arg =
      Inr (take (nat n) (orderedFacts db arg))"
    by (simp only: runReactionsQuery_limit if_True)
next
  fix code reactions final
  assume "getReactionsHandler env db req = (JSON code reactions, final)"
  then show "\<exists>lid facts um lm.
         Atoi (livestream_id req) = Some lid \<and>
         (limit req = [] \<and> facts = orderedFacts db lid \<or>
          (\<exists>n. limit req \<noteq> [] \<and> Atoi (limit req) = Some n \<and> 0 \<le> n \<and>
               facts = take (nat n) (orderedFacts db lid))) \<and>
         reactions = assemble env um lm facts \<and>
         map Reaction.CreatedAt reactions = map ReactionModel.CreatedAt facts \<and>
         sorted_wrt (\<lambda>a b. b \<le> a) (map Reaction.CreatedAt reactions) \<and>
         sorted_wrt (\<lambda>a b. ReactionModel.CreatedAt b \<le> ReactionModel.CreatedAt a)
           (orderedFacts db lid) \<and>
         set (orderedFacts db lid) = {r \<in> set db. ReactionModel.LivestreamID r = lid}"
    by (rule getReactionsHandler_listed)
qed

theorem getReactionsHandler_order_and_limit_witness:
  "\<exists>code reactions final.
     getReactionsHandler exEnv exDb (exReq ''2'') = (JSON code reactions, final) \<and>
     map ReactionModel.CreatedAt exDb = [100, 300, 200] \<and>
     map Reaction.CreatedAt reactions = [300, 200] \<and>
     runReactionsQuery exDb (reactionsQuery @ '' LIMIT '' @ showInt 2) 42 =
       Inr (take 2 (orderedFacts exDb 42))"
proof -
  have "case fst (getReactionsHandler exEnv exDb (exReq ''2'')) of JSON c rs \<Rightarrow> True | _ \<Rightarrow> False"
    by code_simp
  then obtain code reactions final where
    h: "getReactionsHandler exEnv exDb (exReq ''2'') = (JSON code reactions, final)"
    by (cases "getReactionsHandler exEnv exDb (exReq ''2'')";
        cases "fst (getReactionsHandler exEnv exDb (exReq ''2''))") auto
  have l: "Atoi (livestream_id (exReq ''2'')) = Some 42"
    by code_simp
  have n: "limit (exReq ''2'') \<noteq> []" "Atoi (limit (exReq ''2'')) = Some 2"
    by code_simp+
  have f: "map ReactionModel.CreatedAt (take (nat 2) (orderedFacts exDb 42)) = [300, 200]"
    by code_simp
  have d: "map ReactionModel.CreatedAt exDb = [100, 300, 200]"
    by code_simp
  from getReactionsHandler_order_and_limit [of exDb 42 exEnv "exReq ''2''"] h l n
  have "map Reaction.CreatedAt reactions =
          map ReactionModel.CreatedAt (take (nat 2) (orderedFacts exDb 42))"
    by auto
  with f have c: "map Reaction.CreatedAt reactions = [300, 200]"
    by (simp only:)
  have z: "(0::int) \<le> 2"
    by simp
  from getReactionsHandler_order_and_limit [of exDb 42 exEnv "exReq ''2''"]
  have "\<forall>n. 0 \<le> n \<longrightarrow>
      runReactionsQuery exDb (reactionsQuery @ '' LIMIT '' @ showInt n) 42 =
        Inr (take (nat n) (orderedFacts exDb 42))"
    by (rule conjunct1 [OF conjunct2])
  with z have "runReactionsQuery exDb (reactionsQuery @ '' LIMIT '' @ showInt 2) 42 =
       Inr (take (nat 2) (orderedFacts exDb 42))"
    by blast
  then have lim: "runReactionsQuery exDb (reactionsQuery @ '' LIMIT '' @ showInt 2) 42 =
       Inr (take 2 (orderedFacts exDb 42))"
    by (simp only: nat_numeral)
  show ?thesis
    using h d c lim by (intro exI conjI)
qed

end
